theory Spec2Isabelle
  imports Complex_Main "HOL-Library.AList"
begin

section \<open>Python values shared by both modules\<close>

text \<open>
  Exceptions of the source become values. The spec's error names are abstractions of
  them: \<open>ConfigError\<close> and \<open>RangeError\<close> are failed \<^verbatim>\<open>assert\<close> statements
  (\<open>AssertionError\<close>), \<open>UnknownParameterError\<close> and \<open>InvalidStyleError\<close> are the two
  \<^verbatim>\<open>raise ValueError(msg)\<close> of the source, kept apart by their message.
  \<open>TypeError\<close> and \<open>IndexError\<close> are what the interpreter raises on an ill-typed
  operand or an index out of range.
\<close>

datatype error = AssertionError | ValueError string | TypeError | IndexError

text \<open>
  Python floats are idealised as exact reals; \<^verbatim>\<open>int(x)\<close> truncates towards zero.
\<close>

definition py_int :: "real \<Rightarrow> int" where
  "py_int r = (if 0 \<le> r then \<lfloor>r\<rfloor> else \<lceil>r\<rceil>)"

section \<open>menubar.py\<close>

subsection \<open>Constants\<close>

definition MENUBAR_STYLE_ADAPTIVE :: int where "MENUBAR_STYLE_ADAPTIVE = 1000"
definition MENUBAR_STYLE_SIMPLE :: int where "MENUBAR_STYLE_SIMPLE = 1001"
definition MENUBAR_STYLE_TITLE_ONLY :: int where "MENUBAR_STYLE_TITLE_ONLY = 1002"
definition MENUBAR_STYLE_TITLE_ONLY_DIAGONAL :: int where "MENUBAR_STYLE_TITLE_ONLY_DIAGONAL = 1003"
definition MENUBAR_STYLE_NONE :: int where "MENUBAR_STYLE_NONE = 1004"
definition MENUBAR_STYLE_UNDERLINE :: int where "MENUBAR_STYLE_UNDERLINE = 1005"
definition MENUBAR_STYLE_UNDERLINE_TITLE :: int where "MENUBAR_STYLE_UNDERLINE_TITLE = 1006"

definition MODE_CLOSE :: int where "MODE_CLOSE = 1020"
definition MODE_BACK :: int where "MODE_BACK = 1021"

text \<open>\<^verbatim>\<open>check_menubar_style\<close> of themes.py: membership in the seven styles.\<close>

definition check_menubar_style :: "int \<Rightarrow> bool" where
  "check_menubar_style s =
     (s \<in> {MENUBAR_STYLE_ADAPTIVE, MENUBAR_STYLE_SIMPLE, MENUBAR_STYLE_TITLE_ONLY,
            MENUBAR_STYLE_TITLE_ONLY_DIAGONAL, MENUBAR_STYLE_NONE, MENUBAR_STYLE_UNDERLINE,
            MENUBAR_STYLE_UNDERLINE_TITLE})"

text \<open>
  Modelled from the spec: \<^verbatim>\<open>pygame_menu.locals\<close> and \<^verbatim>\<open>pygame_menu.controls\<close> are not
  among the sources. Positions are "a closed enum of named directions"; the strings below
  name its members. \<open>JOY_BUTTON_BACK\<close> is the joystick's "back" button.
\<close>

definition POSITION_NORTHWEST :: string where "POSITION_NORTHWEST = ''position-northwest''"
definition POSITION_NORTH :: string where "POSITION_NORTH = ''position-north''"
definition POSITION_CENTER :: string where "POSITION_CENTER = ''position-center''"
definition POSITION_NORTHEAST :: string where "POSITION_NORTHEAST = ''position-northeast''"
definition POSITION_SOUTH :: string where "POSITION_SOUTH = ''position-south''"
definition POSITION_SOUTHEAST :: string where "POSITION_SOUTHEAST = ''position-southeast''"
definition POSITION_SOUTHWEST :: string where "POSITION_SOUTHWEST = ''position-southwest''"
definition POSITION_WEST :: string where "POSITION_WEST = ''position-west''"
definition POSITION_EAST :: string where "POSITION_EAST = ''position-east''"

definition ALIGN_CENTER :: string where "ALIGN_CENTER = ''align-center''"
definition ALIGN_LEFT :: string where "ALIGN_LEFT = ''align-left''"
definition ALIGN_RIGHT :: string where "ALIGN_RIGHT = ''align-right''"


subsection \<open>Data\<close>

text \<open>
  \<^verbatim>\<open>ColorType\<close> is a tuple of three or four integers. The menu theme's background
  is a colour or a \<^verbatim>\<open>BaseImage\<close>; the bar's own background has passed
  \<^verbatim>\<open>assert_color\<close> and is a colour. Only the first three channels are ever read here.
\<close>

datatype color = RGB int int int | RGBA int int int int

datatype background = BgColor color | BgImage

fun chan :: "color \<Rightarrow> nat \<Rightarrow> int" where
  "chan (RGB r g b) i = (if i = 0 then r else if i = 1 then g else b)"
| "chan (RGBA r g b a) i = (if i = 0 then r else if i = 1 then g else if i = 2 then b else a)"

text \<open>
  \<^verbatim>\<open>pygame.Rect\<close>: four integers; width and height may be negative. The derived
  attributes are those of pygame (the centre is computed with an arithmetic shift, that
  is, rounding down). A rect is truthy when neither side is zero, and \<^verbatim>\<open>collidepoint\<close>
  is inclusive on the left and top edges only.
\<close>

record rect =
  rect_x :: int
  rect_y :: int
  rect_width :: int
  rect_height :: int

definition Rect :: "int \<Rightarrow> int \<Rightarrow> int \<Rightarrow> int \<Rightarrow> rect" where
  "Rect l t w h = \<lparr>rect_x = l, rect_y = t, rect_width = w, rect_height = h\<rparr>"

definition rect_left :: "rect \<Rightarrow> int" where "rect_left r = rect_x r"
definition rect_top :: "rect \<Rightarrow> int" where "rect_top r = rect_y r"
definition rect_right :: "rect \<Rightarrow> int" where "rect_right r = rect_x r + rect_width r"
definition rect_bottom :: "rect \<Rightarrow> int" where "rect_bottom r = rect_y r + rect_height r"
definition rect_centerx :: "rect \<Rightarrow> int" where "rect_centerx r = rect_x r + rect_width r div 2"
definition rect_centery :: "rect \<Rightarrow> int" where "rect_centery r = rect_y r + rect_height r div 2"



text \<open>
  The owning menu is an external collaborator. The menubar reads from it: \<^verbatim>\<open>get_id()\<close>,
  the truthiness of \<^verbatim>\<open>_top\<close> and of \<^verbatim>\<open>_top._prev\<close> (the navigation depth), whether
  \<^verbatim>\<open>_onclose\<close> is \<^verbatim>\<open>None\<close>, \<^verbatim>\<open>get_width()\<close>, \<^verbatim>\<open>get_width(inner=True)\<close> and
  \<^verbatim>\<open>get_theme().background_color\<close>.
\<close>

record menu =
  menu_id :: string
  has_top :: bool
  top_has_prev :: bool
  onclose_is_None :: bool
  menu_width :: int
  menu_width_inner :: int
  theme_background_color :: background

type_synonym point = "real \<times> real"

type_synonym render_key = "string \<times> int \<times> int \<times> string \<times> color \<times> bool \<times> bool"

text \<open>
  The part of the state that \<^verbatim>\<open>MenuBar\<close> inherits from \<^verbatim>\<open>Widget\<close> and that the
  source reads or writes. Of the rendered surface only its size is kept;
  \<open>render_string_size\<close> is the size of the surface that \<^verbatim>\<open>_render_string\<close> returns for a
  text with the widget's font.
\<close>

record widget =
  menu :: "menu option"
  rect :: rect
  font_color :: color
  font_selected_color :: color
  visible :: bool
  floating :: bool
  readonly :: bool
  mouse_enabled :: bool
  joystick_enabled :: bool
  touchscreen_enabled :: bool
  surface_size :: "(int \<times> int) option"
  last_render_hash :: "render_key option"
  render_string_size :: "string \<Rightarrow> int \<times> int"

record menubar = widget +
  backbox :: bool
  backbox_border_width :: int
  backbox_pos :: "(int \<times> int) list option"
  backbox_rect :: "rect option"
  background_color :: color
  box_mode :: int
  modify_scrollarea :: bool
  offsetx :: real
  offsety :: real
  polygon_pos :: "point list option"
  style :: int
  title :: string
  width :: int

subsection \<open>Methods\<close>

text \<open>
  \<^verbatim>\<open>_check_title_color\<close>: the only effect is a warning, returned here as a value. It is
  a diagnostic and changes nothing of the widget.
\<close>

datatype title_warning = TitleEqual bool | TitleSimilar bool

definition check_title_color :: "menubar \<Rightarrow> bool \<Rightarrow> title_warning option" where
  "check_title_color self background_menu =
     (let c_back =
        (case menu self of
           Some m \<Rightarrow> if background_menu then theme_background_color m
                     else BgColor (background_color self)
         | None \<Rightarrow> BgColor (background_color self))
      in case c_back of
           BgImage \<Rightarrow> None
         | BgColor c \<Rightarrow>
            (let tol = 5;
                 c_dif_1 = \<bar>chan c 0 - chan (font_color self) 0\<bar>;
                 c_dif_2 = \<bar>chan c 1 - chan (font_color self) 1\<bar>;
                 c_dif_3 = \<bar>chan c 2 - chan (font_color self) 2\<bar>
             in if c_dif_1 < tol \<and> c_dif_2 < tol \<and> c_dif_3 < tol
                then Some (if c_dif_1 = c_dif_2 \<and> c_dif_2 = c_dif_3 \<and> c_dif_3 = 0
                           then TitleEqual background_menu
                           else TitleSimilar background_menu)
                else None))"

definition get_title_offset :: "menubar \<Rightarrow> int \<times> int" where
  "get_title_offset self = (py_int (offsetx self), py_int (offsety self))"

definition set_backbox_border_width :: "menubar \<Rightarrow> int \<Rightarrow> error + menubar" where
  "set_backbox_border_width self w =
     (if 0 < w then Inr (self\<lparr>backbox_border_width := w\<rparr>) else Inl AssertionError)"




text \<open>
  Modelled from the spec: \<^verbatim>\<open>Widget._render_hash_changed\<close> is not among the sources. The
  spec: "skip recomputation and report unchanged if identical to the previous call;
  otherwise recompute and store the new hash". The memo is modelled as the tuple itself.
\<close>

definition render_hash_changed :: "menubar \<Rightarrow> render_key \<Rightarrow> bool \<times> menubar" where
  "render_hash_changed self key =
     (if last_render_hash self = Some key then (False, self)
      else (True, self\<lparr>last_render_hash := Some key\<rparr>))"

text \<open>
  The style branch of \<^verbatim>\<open>_render\<close> (lines 302 to 414): the polygon, the size of the
  cross, \<open>dy\<close> and the \<open>background_menu\<close> flag handed to the title colour check.
  The message of the \<^verbatim>\<open>ValueError\<close> is kept without the style number.
\<close>

definition polygon_for_style :: "menubar \<Rightarrow> error + (point list \<times> real \<times> int \<times> bool)" where
  "polygon_for_style self =
     (let x = real_of_int (rect_x (rect self));
          y = real_of_int (rect_y (rect self));
          rw = real_of_int (rect_width (rect self));
          h = real_of_int (rect_height (rect self));
          w = real_of_int (width self);
          ox = offsetx self
      in if style self = MENUBAR_STYLE_ADAPTIVE then
           Inr ([(x, y), (x + w - 1, y), (x + w - 1, y + h * (6 / 10)),
                 (x + rw + 25 + ox, y + h * (6 / 10)), (x + rw + 5 + ox, y + h), (x, y + h)],
                h * (6 / 10), 0, False)
         else if style self = MENUBAR_STYLE_SIMPLE then
           Inr ([(x, y), (x + w - 1, y), (x + w - 1, y + h), (x, y + h)], h, 0, False)
         else if style self = MENUBAR_STYLE_TITLE_ONLY then
           Inr ([(x, y), (x + rw + 5 + ox, y), (x + rw + 5 + ox, y + h), (x, y + h)],
                h * (6 / 10), 0, False)
         else if style self = MENUBAR_STYLE_TITLE_ONLY_DIAGONAL then
           Inr ([(x, y), (x + rw + 25 + ox, y), (x + rw + 5 + ox, y + h), (x, y + h)],
                h * (6 / 10), 0, False)
         else if style self = MENUBAR_STYLE_NONE then
           Inr ([(x, y), (x + w - 1, y)], h * (6 / 10), 0, True)
         else if style self = MENUBAR_STYLE_UNDERLINE then
           Inr ([(x, y + (91 / 100) * h + 4), (x + w - 1, y + (91 / 100) * h + 4),
                 (x + w - 1, y + h + 4), (x, y + h + 4)],
                (6 / 10) * h, 4, True)
         else if style self = MENUBAR_STYLE_UNDERLINE_TITLE then
           Inr ([(x, y + (91 / 100) * h + 3), (x + rw + 5 + ox, y + (91 / 100) * h + 3),
                 (x + rw + 5 + ox, y + h + 3), (x, y + h + 3)],
                (6 / 10) * h, 3, True)
         else Inl (ValueError ''invalid menubar mode''))"

text \<open>The back box of \<^verbatim>\<open>_render\<close> (lines 417 to 457).\<close>

definition create_backbox :: "menubar \<Rightarrow> real \<Rightarrow> menubar" where
  "create_backbox self cross_size =
     (if backbox self then
        (let backbox_margin = 4;
             scroll_delta =
               (case menu self of
                  Some m \<Rightarrow> if floating self then menu_width m - menu_width_inner m else 0
                | None \<Rightarrow> 0);
             r = Rect
                   (py_int (real_of_int (rect_x (rect self)) + real_of_int (width self)
                            - cross_size + backbox_margin - real_of_int scroll_delta))
                   (py_int (real_of_int (rect_y (rect self)) + backbox_margin))
                   (py_int (cross_size - 2 * backbox_margin))
                   (py_int (cross_size - 2 * backbox_margin));
             self1 = self\<lparr>backbox_rect := Some r\<rparr>
         in if box_mode self1 = MODE_CLOSE then
              self1\<lparr>backbox_pos := Some
                [(rect_left r + 4, rect_top r + 4),
                 (rect_centerx r, rect_centery r),
                 (rect_right r - 4, rect_top r + 4),
                 (rect_centerx r, rect_centery r),
                 (rect_right r - 4, rect_bottom r - 4),
                 (rect_centerx r, rect_centery r),
                 (rect_left r + 4, rect_bottom r - 4),
                 (rect_centerx r, rect_centery r),
                 (rect_left r + 4, rect_top r + 4)]\<rparr>
            else if box_mode self1 = MODE_BACK then
              self1\<lparr>backbox_pos := Some
                [(rect_left r + 5, rect_centery r),
                 (rect_centerx r, rect_top r + 5),
                 (rect_centerx r, rect_centery r - 2),
                 (rect_right r - 5, rect_centery r - 2),
                 (rect_right r - 5, rect_centery r + 2),
                 (rect_centerx r, rect_centery r + 2),
                 (rect_centerx r, rect_bottom r - 5),
                 (rect_left r + 5, rect_centery r)]\<rparr>
            else self1)
      else self)"

text \<open>
  \<^verbatim>\<open>_render\<close>. The result is the returned value (\<^verbatim>\<open>None\<close> or \<^verbatim>\<open>True\<close>) and the new
  state. A menu object is truthy, so \<^verbatim>\<open>not self._menu\<close> is false once the menu is set.
  \<^verbatim>\<open>_apply_transforms\<close> is inherited and leaves the modelled fields alone (the source
  notes that the rect keeps its size). Every style branch ends with the title colour
  check, which only warns (\<open>check_title_color\<close> above), so \<open>recompute\<close> drops it.
  An unknown style raises after the new hash has been stored; the model returns the error
  alone.
\<close>

definition menu_prev_condition :: "menu \<Rightarrow> bool" where
  "menu_prev_condition m = (\<not> has_top m \<or> \<not> top_has_prev m)"

definition render_key_of :: "menubar \<Rightarrow> menu \<Rightarrow> render_key" where
  "render_key_of self m =
     (menu_id m, rect_x (rect self), rect_y (rect self), title self,
      font_selected_color self, menu_prev_condition m, visible self)"

definition recompute :: "menubar \<Rightarrow> bool \<Rightarrow> error + menubar" where
  "recompute self at_root =
     (let self2 = self\<lparr>box_mode := (if at_root then MODE_CLOSE else MODE_BACK)\<rparr>;
          sz = render_string_size self2 (title self2);
          self3 = self2\<lparr>surface_size := Some sz,
                        rect := (rect self2)\<lparr>rect_width := fst sz, rect_height := snd sz\<rparr>\<rparr>
      in case polygon_for_style self3 of
           Inl e \<Rightarrow> Inl e
         | Inr (poly, cross_size, dy, background_menu) \<Rightarrow>
            (let self4 = self3\<lparr>polygon_pos := Some poly,
                               rect := (rect self3)\<lparr>rect_height := rect_height (rect self3) + dy\<rparr>\<rparr>
             in Inr (create_backbox self4 cross_size)))"

definition render :: "menubar \<Rightarrow> error + (bool option \<times> menubar)" where
  "render self =
     (case menu self of
        None \<Rightarrow> Inr (None, self)
      | Some m \<Rightarrow>
         (case render_hash_changed self (render_key_of self m) of
            (False, self1) \<Rightarrow> Inr (Some True, self1)
          | (True, self1) \<Rightarrow>
             (case recompute self1 (menu_prev_condition m) of
                Inl e \<Rightarrow> Inl e
              | Inr self2 \<Rightarrow> Inr (None, self2))))"

definition delta_thickness :: "point list \<Rightarrow> real" where
  "delta_thickness ps = snd (ps ! 4) - snd (ps ! 2)"

definition get_scrollbar_style_change ::
    "menubar \<Rightarrow> string \<Rightarrow> error + ((real \<times> (real \<times> real)) \<times> menubar)" where
  "get_scrollbar_style_change self position =
     (case render self of
        Inl e \<Rightarrow> Inl e
      | Inr (_, self1) \<Rightarrow>
         if \<not> modify_scrollarea self1 then Inr ((0, (0, 0)), self1)
         else if style self1 = MENUBAR_STYLE_ADAPTIVE \<and> position = POSITION_EAST then
           (case polygon_pos self1 of
              None \<Rightarrow> Inl TypeError
            | Some ps \<Rightarrow>
               if 4 < length ps
               then (let t = delta_thickness ps in Inr ((t, (0, - t)), self1))
               else Inl IndexError)
         else Inr ((0, (0, 0)), self1))"

definition set_title :: "menubar \<Rightarrow> string \<Rightarrow> real \<Rightarrow> real \<Rightarrow> error + menubar" where
  "set_title self t ox oy =
     (let self1 = self\<lparr>title := t, offsety := oy, offsetx := ox\<rparr>
      in case menu self1 of
           None \<Rightarrow> Inr self1
         | Some _ \<Rightarrow> (case render self1 of Inl e \<Rightarrow> Inl e | Inr (_, self2) \<Rightarrow> Inr self2))"

text \<open>
  \<^verbatim>\<open>MenuBar.__init__\<close>. \<open>w\<close> is the state that \<^verbatim>\<open>Widget.__init__\<close> leaves (not among
  the sources); the arguments are typed as the signature annotates them.
\<close>

definition MenuBar_init ::
    "widget \<Rightarrow> string \<Rightarrow> real \<Rightarrow> color \<Rightarrow> bool \<Rightarrow> int \<Rightarrow> bool \<Rightarrow> real \<Rightarrow> real \<Rightarrow> error + menubar" where
  "MenuBar_init w title0 width0 background_color0 back_box mode modify_scrollarea0 offsetx0 offsety0 =
     set_title
       (widget.extend w
          (menubar.fields back_box 1 None None background_color0 0 modify_scrollarea0 0 0 None
             mode [] (py_int width0)))
       title0 offsetx0 offsety0"







section \<open>themes.py\<close>

subsection \<open>Dynamically typed values\<close>

text \<open>
  The values a theme attribute or a keyword argument can hold. \<open>PImage\<close> is a
  \<^verbatim>\<open>BaseImage\<close> object (told apart by a number), \<open>PSelection c\<close> a
  \<^verbatim>\<open>Selection\<close> object whose colour is \<open>c\<close>, \<open>PObject\<close> an object of any other
  class.
\<close>

datatype pyval =
    PNone
  | PBool bool
  | PInt int
  | PFloat real
  | PStr string
  | PTuple "pyval list"
  | PList "pyval list"
  | PImage nat
  | PSelection pyval
  | PObject string

datatype pytype = T_bool | T_int | T_float | T_str | T_Selection

text \<open>\<^verbatim>\<open>isinstance\<close>: \<^verbatim>\<open>bool\<close> is a subclass of \<^verbatim>\<open>int\<close>.\<close>

fun isinstance :: "pyval \<Rightarrow> pytype \<Rightarrow> bool" where
  "isinstance (PBool b) T_bool = True"
| "isinstance (PBool b) T_int = True"
| "isinstance (PInt i) T_int = True"
| "isinstance (PFloat r) T_float = True"
| "isinstance (PStr s) T_str = True"
| "isinstance (PSelection c) T_Selection = True"
| "isinstance v t = False"

fun is_image :: "pyval \<Rightarrow> bool" where
  "is_image (PImage n) = True"
| "is_image v = False"

text \<open>The numeric value of a number (\<^verbatim>\<open>True\<close> is 1, \<^verbatim>\<open>False\<close> is 0).\<close>

fun num_of :: "pyval \<Rightarrow> real option" where
  "num_of (PBool b) = Some (if b then 1 else 0)"
| "num_of (PInt i) = Some (real_of_int i)"
| "num_of (PFloat r) = Some r"
| "num_of v = None"

definition is_number :: "pyval \<Rightarrow> bool" where
  "is_number v = (num_of v \<noteq> None)"

text \<open>
  Comparisons with an integer literal: ordering a non-number against a number is a
  \<open>TypeError\<close>; \<^verbatim>\<open>!=\<close> never raises.
\<close>

definition py_ge :: "pyval \<Rightarrow> real \<Rightarrow> error + bool" where
  "py_ge v c = (case num_of v of None \<Rightarrow> Inl TypeError | Some r \<Rightarrow> Inr (c \<le> r))"

definition py_gt :: "pyval \<Rightarrow> real \<Rightarrow> error + bool" where
  "py_gt v c = (case num_of v of None \<Rightarrow> Inl TypeError | Some r \<Rightarrow> Inr (c < r))"

definition py_ne :: "pyval \<Rightarrow> real \<Rightarrow> bool" where
  "py_ne v c = (case num_of v of None \<Rightarrow> True | Some r \<Rightarrow> r \<noteq> c)"

text \<open>Subscription \<^verbatim>\<open>v[i]\<close> with a non-negative index.\<close>

definition py_index :: "pyval \<Rightarrow> nat \<Rightarrow> error + pyval" where
  "py_index v i =
     (case v of
        PTuple xs \<Rightarrow> if i < length xs then Inr (xs ! i) else Inl IndexError
      | PList xs \<Rightarrow> if i < length xs then Inr (xs ! i) else Inl IndexError
      | PStr s \<Rightarrow> if i < length s then Inr (PStr [s ! i]) else Inl IndexError
      | _ \<Rightarrow> Inl TypeError)"

subsection \<open>Sequencing of statements that may raise\<close>

definition bindE :: "error + 'a \<Rightarrow> ('a \<Rightarrow> error + 'b) \<Rightarrow> error + 'b" where
  "bindE m f = (case m of Inl e \<Rightarrow> Inl e | Inr x \<Rightarrow> f x)"

definition assert_that :: "bool \<Rightarrow> error + unit" where
  "assert_that b = (if b then Inr () else Inl AssertionError)"

definition assert_res :: "error + bool \<Rightarrow> error + unit" where
  "assert_res m = bindE m assert_that"

definition py_and :: "error + bool \<Rightarrow> error + bool \<Rightarrow> error + bool" where
  "py_and a b = bindE a (\<lambda>x. if x then b else Inr False)"

fun statements :: "(error + unit) list \<Rightarrow> error + unit" where
  "statements [] = Inr ()"
| "statements (s # ss) = (case s of Inl e \<Rightarrow> Inl e | Inr u \<Rightarrow> statements ss)"

subsection \<open>Helpers of other modules\<close>

text \<open>
  Modelled from the spec: \<^verbatim>\<open>pygame_menu.utils\<close> is not among the sources. The spec
  gives the constraints: "color: 3/4-tuple of 0-255 numbers; tuple2: exactly 2 numbers;
  position/alignment: member of a closed enum of named directions"; a mismatch is a failed
  assertion. Lists are accepted where tuples are, as the source of \<^verbatim>\<open>_format_opacity\<close>
  expects.
\<close>

definition channel_ok :: "pyval \<Rightarrow> bool" where
  "channel_ok v = (case num_of v of None \<Rightarrow> False | Some r \<Rightarrow> 0 \<le> r \<and> r \<le> 255)"

definition is_color :: "pyval \<Rightarrow> bool" where
  "is_color v =
     (case v of
        PTuple xs \<Rightarrow> (length xs = 3 \<or> length xs = 4) \<and> list_all channel_ok xs
      | PList xs \<Rightarrow> (length xs = 3 \<or> length xs = 4) \<and> list_all channel_ok xs
      | _ \<Rightarrow> False)"

definition is_vector2 :: "pyval \<Rightarrow> bool" where
  "is_vector2 v =
     (case v of
        PTuple xs \<Rightarrow> length xs = 2 \<and> list_all is_number xs
      | PList xs \<Rightarrow> length xs = 2 \<and> list_all is_number xs
      | _ \<Rightarrow> False)"

definition positions :: "string list" where
  "positions = [POSITION_NORTHWEST, POSITION_NORTH, POSITION_CENTER, POSITION_NORTHEAST,
     POSITION_SOUTH, POSITION_SOUTHEAST, POSITION_SOUTHWEST, POSITION_WEST, POSITION_EAST]"

definition alignments :: "string list" where
  "alignments = [ALIGN_CENTER, ALIGN_LEFT, ALIGN_RIGHT]"

definition is_position :: "pyval \<Rightarrow> bool" where
  "is_position v = (case v of PStr s \<Rightarrow> s \<in> set positions | _ \<Rightarrow> False)"

definition is_alignment :: "pyval \<Rightarrow> bool" where
  "is_alignment v = (case v of PStr s \<Rightarrow> s \<in> set alignments | _ \<Rightarrow> False)"

definition assert_color :: "pyval \<Rightarrow> error + unit" where
  "assert_color v = assert_that (is_color v)"

definition assert_vector2 :: "pyval \<Rightarrow> error + unit" where
  "assert_vector2 v = assert_that (is_vector2 v)"

definition assert_position :: "pyval \<Rightarrow> error + unit" where
  "assert_position v = assert_that (is_position v)"

definition assert_alignment :: "pyval \<Rightarrow> error + unit" where
  "assert_alignment v = assert_that (is_alignment v)"

text \<open>
  Modelled from the spec: \<^verbatim>\<open>pygame_menu.font\<close> and the selection effects are not
  among the sources. The default font is some string; the selection effect is an "owned"
  object that keeps the colour it is given, which must be a colour.
\<close>

definition FONT_OPEN_SANS :: string where "FONT_OPEN_SANS = ''opensans''"

definition HighlightSelection :: pyval where "HighlightSelection = PSelection PNone"

definition set_color :: "pyval \<Rightarrow> pyval \<Rightarrow> error + pyval" where
  "set_color sel c =
     (case sel of
        PSelection old \<Rightarrow> if is_color c then Inr (PSelection c) else Inl AssertionError
      | _ \<Rightarrow> Inl TypeError)"

subsection \<open>The theme\<close>

text \<open>
  A \<^verbatim>\<open>Theme\<close> object has the 48 attributes that \<^verbatim>\<open>__init__\<close> sets, each holding a
  dynamically typed value: a function from the attribute to its value. The constructors of
  \<open>attr\<close> are the attribute names, capitalised.
\<close>

datatype attr =
    Background_color | Cursor_color | Cursor_selection_color | Focus_background_color
  | Readonly_color | Readonly_selected_color | Selection_color | Surface_clear_color
  | Menubar_close_button | Title_background_color | Title_bar_modify_scrollarea
  | Title_bar_style | Title_font | Title_font_antialias | Title_font_color | Title_font_size
  | Title_offset | Title_shadow | Title_shadow_color | Title_shadow_offset
  | Title_shadow_position | Scrollarea_outer_margin | Scrollarea_position | Scrollbar_color
  | Scrollbar_shadow | Scrollbar_shadow_color | Scrollbar_shadow_offset
  | Scrollbar_shadow_position | Scrollbar_slider_color | Scrollbar_slider_pad
  | Scrollbar_thick | Widget_alignment | Widget_background_color | Widget_background_inflate
  | Widget_font | Widget_font_antialias | Widget_font_background_color
  | Widget_font_background_color_from_menu | Widget_font_color | Widget_font_size
  | Widget_margin | Widget_padding | Widget_offset | Widget_selection_effect | Widget_shadow
  | Widget_shadow_color | Widget_shadow_offset | Widget_shadow_position

type_synonym theme = "attr \<Rightarrow> pyval"

type_synonym kwargs = "(string \<times> pyval) list"

text \<open>
  \<^verbatim>\<open>allowed_types\<close> of \<^verbatim>\<open>_get\<close>: a name such as \<^verbatim>\<open>'color'\<close> or a native type; a
  tuple of them is a list. A single one is wrapped into a tuple by \<^verbatim>\<open>_get\<close> itself.
\<close>

datatype valtype = VName string | VType pytype

definition all_types :: "valtype list" where
  "all_types = [VName ''color'', VName ''color_none'', VName ''color_image'',
     VName ''color_image_none'', VName ''position'', VName ''alignment'', VName ''tuple2'']"

text \<open>
  The loop of \<^verbatim>\<open>_get\<close> over the allowed types: \<open>Inr True\<close> when the value is returned
  from inside the loop, \<open>Inr False\<close> when the loop runs to its end.
\<close>

fun check_valtypes :: "valtype list \<Rightarrow> pyval \<Rightarrow> error + bool" where
  "check_valtypes [] value = Inr False"
| "check_valtypes (valtype # ts) value =
     (if valtype = VName ''color'' then
        bindE (assert_color value) (\<lambda>u. check_valtypes ts value)
      else if valtype = VName ''color_none'' then
        (if value = PNone then Inr True
         else bindE (assert_color value) (\<lambda>u. check_valtypes ts value))
      else if valtype = VName ''color_image'' then
        (if is_image value then Inr True
         else bindE (assert_color value) (\<lambda>u. check_valtypes ts value))
      else if valtype = VName ''color_image_none'' then
        (if value = PNone then Inr True
         else if is_image value then Inr True
         else bindE (assert_color value) (\<lambda>u. check_valtypes ts value))
      else if valtype = VName ''position'' then
        bindE (assert_position value) (\<lambda>u. check_valtypes ts value)
      else if valtype = VName ''alignment'' then
        bindE (assert_alignment value) (\<lambda>u. check_valtypes ts value)
      else if valtype = VName ''tuple2'' then
        bindE (assert_vector2 value) (\<lambda>u. check_valtypes ts value)
      else check_valtypes ts value)"

text \<open>
  \<^verbatim>\<open>isinstance(value, others)\<close> with a tuple: the members are tried in order, and a
  member that is not a type (a string) is a \<open>TypeError\<close>.
\<close>

fun isinstance_tuple :: "pyval \<Rightarrow> valtype list \<Rightarrow> error + bool" where
  "isinstance_tuple value [] = Inr False"
| "isinstance_tuple value (VType t # ts) =
     (if isinstance value t then Inr True else isinstance_tuple value ts)"
| "isinstance_tuple value (VName n # ts) = Inl TypeError"

text \<open>
  \<^verbatim>\<open>_get\<close>: the value and the dictionary after the \<^verbatim>\<open>pop\<close>. Every call of the
  source passes allowed types.
\<close>

definition Theme_get :: "kwargs \<Rightarrow> string \<Rightarrow> valtype list \<Rightarrow> pyval \<Rightarrow> error + (pyval \<times> kwargs)" where
  "Theme_get params key allowed_types dflt =
     (case map_of params key of
        None \<Rightarrow> Inr (dflt, params)
      | Some value \<Rightarrow>
         (let params1 = AList.delete key params in
          bindE (check_valtypes allowed_types value) (\<lambda>returned.
            if returned then Inr (value, params1)
            else
              (let others = filter (\<lambda>t. t \<notin> set all_types) allowed_types in
               if others \<noteq> [] then
                 bindE (assert_res (isinstance_tuple value others)) (\<lambda>u. Inr (value, params1))
               else Inr (value, params1)))))"

definition color3 :: "int \<Rightarrow> int \<Rightarrow> int \<Rightarrow> pyval" where
  "color3 r g b = PTuple [PInt r, PInt g, PInt b]"

definition color4 :: "int \<Rightarrow> int \<Rightarrow> int \<Rightarrow> int \<Rightarrow> pyval" where
  "color4 r g b a = PTuple [PInt r, PInt g, PInt b, PInt a]"

definition pair2 :: "int \<Rightarrow> int \<Rightarrow> pyval" where
  "pair2 a b = PTuple [PInt a, PInt b]"

text \<open>
  The assignments of \<^verbatim>\<open>__init__\<close>, one row each, in order: the attribute, the key
  looked up in the keyword arguments, the allowed types and the default.
\<close>

definition theme_schema :: "(attr \<times> string \<times> valtype list \<times> pyval) list" where
  "theme_schema =
    [(Background_color, ''background_color'', [VName ''color_image''], color3 220 220 220),
     (Cursor_color, ''cursor_color'', [VName ''color''], color3 0 0 0),
     (Cursor_selection_color, ''cursor_selection_color'', [VName ''color''], color4 30 30 30 120),
     (Focus_background_color, ''focus_background_color'', [VName ''color''], color4 0 0 0 180),
     (Readonly_color, ''readonly_color'', [VName ''color''], color3 120 120 120),
     (Readonly_selected_color, ''readonly_selected_color'', [VName ''color''], color3 190 190 190),
     (Selection_color, ''selection_color'', [VName ''color''], color3 255 255 255),
     (Surface_clear_color, ''surface_clear_color'', [VName ''color''], color3 0 0 0),
     (Menubar_close_button, ''menubar_close_button'', [VType T_bool], PBool True),
     (Title_background_color, ''title_background_color'', [VName ''color''], color3 70 70 70),
     (Title_bar_modify_scrollarea, ''title_bar_modify_scrollarea'', [VType T_bool], PBool True),
     (Title_bar_style, ''title_bar_style'', [VType T_int], PInt MENUBAR_STYLE_ADAPTIVE),
     (Title_font, ''title_font'', [VType T_str], PStr FONT_OPEN_SANS),
     (Title_font_antialias, ''title_font_antialias'', [VType T_bool], PBool True),
     (Title_font_color, ''title_font_color'', [VName ''color''], color3 220 220 220),
     (Title_font_size, ''title_font_size'', [VType T_int], PInt 40),
     (Title_offset, ''title_offset'', [VName ''tuple2''], pair2 5 (- 1)),
     (Title_shadow, ''title_shadow'', [VType T_bool], PBool False),
     (Title_shadow_color, ''title_shadow_color'', [VName ''color''], color3 0 0 0),
     (Title_shadow_offset, ''title_shadow_offset'', [VType T_int, VType T_float], PInt 2),
     (Title_shadow_position, ''title_shadow_position'', [VName ''position''],
        PStr POSITION_NORTHWEST),
     (Scrollarea_outer_margin, ''scrollarea_outer_margin'', [VName ''tuple2''], pair2 0 0),
     (Scrollarea_position, ''scrollarea_position'', [VName ''str''], PStr POSITION_SOUTHEAST),
     (Scrollbar_color, ''scrollbar_color'', [VName ''color''], color3 220 220 220),
     (Scrollbar_shadow, ''scrollbar_shadow'', [VType T_bool], PBool False),
     (Scrollbar_shadow_color, ''scrollbar_shadow_color'', [VName ''color''], color3 0 0 0),
     (Scrollbar_shadow_offset, ''scrollbar_shadow_offset'', [VType T_int, VType T_float], PInt 2),
     (Scrollbar_shadow_position, ''scrollbar_shadow_position'', [VName ''position''],
        PStr POSITION_NORTHWEST),
     (Scrollbar_slider_color, ''scrollbar_slider_color'', [VName ''color''], color3 200 200 200),
     (Scrollbar_slider_pad, ''scrollbar_slider_pad'', [VType T_int, VType T_float], PInt 0),
     (Scrollbar_thick, ''scrollbar_thick'', [VType T_int, VType T_float], PInt 20),
     (Widget_alignment, ''widget_alignment'', [VName ''alignment''], PStr ALIGN_CENTER),
     (Widget_background_color, ''widget_background_color'', [VName ''color_image_none''], PNone),
     (Widget_background_inflate, ''background_inflate'', [VName ''tuple2''], pair2 0 0),
     (Widget_font, ''widget_font'', [VType T_str], PStr FONT_OPEN_SANS),
     (Widget_font_antialias, ''widget_font_antialias'', [VType T_bool], PBool True),
     (Widget_font_background_color, ''widget_font_background_color'', [VName ''color_none''],
        PNone),
     (Widget_font_background_color_from_menu, ''widget_font_background_color_from_menu'',
        [VType T_bool], PBool False),
     (Widget_font_color, ''widget_font_color'', [VName ''color''], color3 70 70 70),
     (Widget_font_size, ''widget_font_size'', [VType T_int], PInt 30),
     (Widget_margin, ''widget_margin'', [VName ''tuple2''], pair2 0 10),
     (Widget_padding, ''widget_padding'', [VType T_int, VType T_float], PInt 0),
     (Widget_offset, ''widget_offset'', [VName ''tuple2''], pair2 0 0),
     (Widget_selection_effect, ''widget_selection_effect'', [VType T_Selection],
        HighlightSelection),
     (Widget_shadow, ''widget_shadow'', [VType T_bool], PBool False),
     (Widget_shadow_color, ''widget_shadow_color'', [VName ''color''], color3 0 0 0),
     (Widget_shadow_offset, ''widget_shadow_offset'', [VType T_int, VType T_float], PInt 2),
     (Widget_shadow_position, ''widget_shadow_position'', [VName ''position''],
        PStr POSITION_NORTHWEST)]"

definition theme_keys :: "string list" where
  "theme_keys = map (\<lambda>(a, key, tys, dflt). key) theme_schema"

fun init_fields ::
    "(attr \<times> string \<times> valtype list \<times> pyval) list \<Rightarrow> kwargs \<Rightarrow> theme \<Rightarrow> error + (theme \<times> kwargs)" where
  "init_fields [] kw th = Inr (th, kw)"
| "init_fields ((a, key, tys, dflt) # rows) kw th =
     (case Theme_get kw key tys dflt of
        Inl e \<Rightarrow> Inl e
      | Inr (v, kw1) \<Rightarrow> init_fields rows kw1 (th(a := v)))"

definition unset_theme :: theme where
  "unset_theme = (\<lambda>a. PNone)"

text \<open>
  \<^verbatim>\<open>Theme.__init__\<close>: after the assignments, the first keyword left over raises
  \<^verbatim>\<open>ValueError('parameter Theme.<key> does not exist')\<close>.
\<close>

definition Theme_init :: "kwargs \<Rightarrow> error + theme" where
  "Theme_init kwargs =
     (case init_fields theme_schema kwargs unset_theme of
        Inl e \<Rightarrow> Inl e
      | Inr (th, rest) \<Rightarrow>
         (case rest of
            [] \<Rightarrow> Inr th
          | (invalid_keyword, v) # _ \<Rightarrow>
              Inl (ValueError (''parameter Theme.'' @ invalid_keyword @ '' does not exist''))))"

text \<open>\<^verbatim>\<open>_vec_to_tuple\<close>; \<open>check_length = 0\<close> checks nothing.\<close>

definition vec_to_tuple :: "pyval \<Rightarrow> nat \<Rightarrow> error + pyval" where
  "vec_to_tuple obj check_length =
     (case obj of
        PTuple xs \<Rightarrow>
          if 0 < check_length \<and> length xs \<noteq> check_length
          then Inl (ValueError ''object is not a vector of the length'') else Inr (PTuple xs)
      | PList xs \<Rightarrow>
          if 0 < check_length \<and> length xs \<noteq> check_length
          then Inl (ValueError ''object is not a vector of the length'') else Inr (PTuple xs)
      | _ \<Rightarrow> Inl (ValueError ''object is not a vector''))"

text \<open>\<^verbatim>\<open>_format_opacity\<close>.\<close>

definition format_opacity :: "pyval \<Rightarrow> error + pyval" where
  "format_opacity color =
     (if is_image color then Inr color
      else if color = PNone then Inr color
      else case color of
        PTuple xs \<Rightarrow>
          bindE (assert_color color) (\<lambda>u.
            if length xs = 4 then Inr color
            else if length xs = 3 then Inr (PTuple [xs ! 0, xs ! 1, xs ! 2, PInt 255])
            else Inr color)
      | PList xs \<Rightarrow>
          bindE (assert_color color) (\<lambda>u.
            if length xs = 4 then Inr (PTuple [xs ! 0, xs ! 1, xs ! 2, xs ! 3])
            else if length xs = 3 then Inr (PTuple [xs ! 0, xs ! 1, xs ! 2, PInt 255])
            else Inr color)
      | _ \<Rightarrow> Inl (ValueError ''invalid color type, only tuple or list are valid''))"

text \<open>\<^verbatim>\<open>self.a = f(self.a)\<close> for each attribute of a list, in order.\<close>

fun map_attrs :: "(pyval \<Rightarrow> error + pyval) \<Rightarrow> attr list \<Rightarrow> theme \<Rightarrow> error + theme" where
  "map_attrs f [] th = Inr th"
| "map_attrs f (a # as) th =
     (case f (th a) of Inl e \<Rightarrow> Inl e | Inr v \<Rightarrow> map_attrs f as (th(a := v)))"

definition color_attrs :: "attr list" where
  "color_attrs = [Background_color, Cursor_color, Cursor_selection_color,
     Focus_background_color, Readonly_color, Readonly_selected_color, Scrollbar_color,
     Scrollbar_shadow_color, Scrollbar_slider_color, Selection_color, Surface_clear_color,
     Title_background_color, Title_font_color, Title_shadow_color, Widget_background_color,
     Widget_font_background_color, Widget_font_color]"

text \<open>
  \<^verbatim>\<open>check_menubar_style\<close> on a dynamically typed attribute: \<^verbatim>\<open>style in (...)\<close>
  compares by value, so a float equal to a style passes.
\<close>

definition check_menubar_style_val :: "pyval \<Rightarrow> bool" where
  "check_menubar_style_val v =
     (case num_of v of
        None \<Rightarrow> False
      | Some r \<Rightarrow> r \<in> real_of_int ` {MENUBAR_STYLE_ADAPTIVE, MENUBAR_STYLE_SIMPLE,
           MENUBAR_STYLE_TITLE_ONLY, MENUBAR_STYLE_TITLE_ONLY_DIAGONAL, MENUBAR_STYLE_NONE,
           MENUBAR_STYLE_UNDERLINE, MENUBAR_STYLE_UNDERLINE_TITLE})"

definition is_int_or_float :: "pyval \<Rightarrow> bool" where
  "is_int_or_float v = (isinstance v T_int \<or> isinstance v T_float)"

definition len_between :: "pyval \<Rightarrow> nat \<Rightarrow> nat \<Rightarrow> bool" where
  "len_between v lo hi =
     (case v of PTuple xs \<Rightarrow> lo \<le> length xs \<and> length xs \<le> hi | _ \<Rightarrow> False)"

definition is_vector :: "pyval \<Rightarrow> bool" where
  "is_vector v = (case v of PTuple xs \<Rightarrow> True | PList xs \<Rightarrow> True | _ \<Rightarrow> False)"

text \<open>
  The first block of \<^verbatim>\<open>validate\<close> (lines 306 to 332): assertions only.
  \<open>get_scrollbars_from_position\<close> belongs to a module that is not among the sources and
  is a parameter.
\<close>

definition validate_types :: "(pyval \<Rightarrow> error + pyval) \<Rightarrow> theme \<Rightarrow> error + unit" where
  "validate_types get_scrollbars_from_position self =
     statements
      [assert_that (isinstance (self Menubar_close_button) T_bool),
       assert_that (isinstance (self Title_bar_modify_scrollarea) T_bool),
       assert_that (isinstance (self Title_font_antialias) T_bool),
       assert_that (isinstance (self Title_shadow) T_bool),
       assert_that (isinstance (self Scrollbar_shadow) T_bool),
       assert_that (isinstance (self Widget_font_antialias) T_bool),
       assert_that (isinstance (self Widget_font_background_color_from_menu) T_bool),
       assert_that (isinstance (self Widget_shadow) T_bool),
       assert_that (check_menubar_style_val (self Title_bar_style)),
       assert_that (isinstance (self Title_font) T_str),
       assert_that (isinstance (self Title_font_size) T_int),
       assert_that (is_int_or_float (self Title_shadow_offset)),
       assert_position (self Title_shadow_position),
       bindE (get_scrollbars_from_position (self Scrollarea_position))
         (\<lambda>r. assert_that (r \<noteq> PNone)),
       assert_that (is_int_or_float (self Scrollbar_shadow_offset)),
       assert_position (self Scrollbar_shadow_position),
       assert_that (is_int_or_float (self Scrollbar_slider_pad)),
       assert_that (is_int_or_float (self Scrollbar_thick)),
       assert_alignment (self Widget_alignment),
       assert_that (isinstance (self Widget_font) T_str),
       assert_that (isinstance (self Widget_font_size) T_int),
       assert_that (isinstance (self Widget_selection_effect) T_Selection),
       assert_that (is_int_or_float (self Widget_shadow_offset)),
       assert_position (self Widget_shadow_position)]"

text \<open>The list-to-tuple block (lines 353 to 361).\<close>

definition validate_vectors :: "theme \<Rightarrow> error + theme" where
  "validate_vectors self =
     bindE (map_attrs (\<lambda>v. vec_to_tuple v 2)
              [Scrollarea_outer_margin, Title_offset, Widget_background_inflate, Widget_margin]
              self) (\<lambda>self1.
     bindE (if is_vector (self1 Widget_padding)
            then bindE (vec_to_tuple (self1 Widget_padding) 0) (\<lambda>p.
                   bindE (assert_that (len_between p 2 4)) (\<lambda>u.
                     Inr (self1(Widget_padding := p))))
            else Inr self1) (\<lambda>self2.
     map_attrs (\<lambda>v. vec_to_tuple v 2) [Widget_offset] self2))"

text \<open>The size checks (lines 363 to 374).\<close>

definition index_ge0 :: "pyval \<Rightarrow> nat \<Rightarrow> error + bool" where
  "index_ge0 v i = bindE (py_index v i) (\<lambda>x. py_ge x 0)"

definition validate_sizes :: "theme \<Rightarrow> error + unit" where
  "validate_sizes self =
     statements
      [assert_res (py_and (index_ge0 (self Scrollarea_outer_margin) 0)
                          (index_ge0 (self Scrollarea_outer_margin) 1)),
       assert_res (py_and (index_ge0 (self Widget_offset) 0)
                          (index_ge0 (self Widget_offset) 1)),
       assert_res (py_gt (self Scrollbar_shadow_offset) 0),
       assert_res (py_ge (self Scrollbar_slider_pad) 0),
       assert_res (py_gt (self Scrollbar_thick) 0),
       assert_res (py_gt (self Title_font_size) 0),
       assert_res (py_gt (self Widget_font_size) 0),
       assert_res (py_gt (self Widget_shadow_offset) 0)]"

text \<open>\<^verbatim>\<open>validate\<close>: the theme with its attributes normalised, or the first error.\<close>

definition validate :: "(pyval \<Rightarrow> error + pyval) \<Rightarrow> theme \<Rightarrow> error + theme" where
  "validate get_scrollbars_from_position self =
     bindE (validate_types get_scrollbars_from_position self) (\<lambda>u.
     bindE (map_attrs format_opacity color_attrs self) (\<lambda>self1.
     bindE (validate_vectors self1) (\<lambda>self2.
     bindE (validate_sizes self2) (\<lambda>u.
     bindE (set_color (self2 Widget_selection_effect) (self2 Selection_color)) (\<lambda>sel.
       (let self3 = self2(Widget_selection_effect := sel) in
        bindE (py_index (self3 Focus_background_color) 3) (\<lambda>alpha.
        bindE (assert_that (py_ne alpha 0)) (\<lambda>u. Inr self3))))))))"


text \<open>A concrete position helper: it accepts every position but the centre.\<close>

definition example_scrollbars :: "pyval \<Rightarrow> error + pyval" where
  "example_scrollbars p =
     (if is_position p \<and> p \<noteq> PStr POSITION_CENTER then Inr (PTuple [p])
      else Inl (ValueError ''unknown ScrollArea position''))"

section \<open>Examples\<close>

subsection \<open>A concrete menu bar\<close>

text \<open>
  A root menu without close action, a submenu, and a bar of 600 pixels with the back box
  requested, whose font renders a text 20 pixels wide per character and 40 pixels high.
\<close>

definition example_menu :: menu where
  "example_menu = \<lparr>menu_id = ''main'', has_top = True, top_has_prev = False,
     onclose_is_None = True, menu_width = 600, menu_width_inner = 580,
     theme_background_color = BgColor (RGBA 220 220 220 255)\<rparr>"

definition example_submenu :: menu where
  "example_submenu = example_menu\<lparr>menu_id := ''sub'', top_has_prev := True\<rparr>"

definition example_widget :: "menu \<Rightarrow> widget" where
  "example_widget m = \<lparr>menu = Some m, rect = Rect 0 0 0 0,
     font_color = RGB 220 220 220, font_selected_color = RGB 255 255 255,
     visible = True, floating = False, readonly = False, mouse_enabled = True,
     joystick_enabled = True, touchscreen_enabled = False,
     surface_size = None, last_render_hash = None,
     render_string_size = (\<lambda>t. (20 * int (length t), 40))\<rparr>"

definition example_bar :: "menu \<Rightarrow> int \<Rightarrow> bool \<Rightarrow> menubar" where
  "example_bar m mode ms =
     widget.extend (example_widget m)
       (menubar.fields True 1 None None (RGB 70 70 70) 0 ms 5 (- 1) None mode ''Menu'' 600)"


section \<open>Properties of the menu bar\<close>

lemmas style_defs =
  MENUBAR_STYLE_ADAPTIVE_def MENUBAR_STYLE_SIMPLE_def MENUBAR_STYLE_TITLE_ONLY_def
  MENUBAR_STYLE_TITLE_ONLY_DIAGONAL_def MENUBAR_STYLE_NONE_def MENUBAR_STYLE_UNDERLINE_def
  MENUBAR_STYLE_UNDERLINE_TITLE_def

lemmas example_defs =
  example_bar_def example_widget_def example_menu_def example_submenu_def
  widget.defs menubar.defs

lemmas render_defs =
  render_def render_hash_changed_def render_key_of_def menu_prev_condition_def recompute_def polygon_for_style_def
  create_backbox_def Rect_def style_defs MODE_CLOSE_def MODE_BACK_def py_int_def
  rect_left_def rect_top_def rect_right_def rect_bottom_def rect_centerx_def rect_centery_def

subsection \<open>Rendering\<close>

lemma render_no_menu: "menu self = None \<Longrightarrow> render self = Inr (None, self)"
  by (simp add: render_def)

lemma render_unchanged:
  "menu self = Some m \<Longrightarrow> last_render_hash self = Some (render_key_of self m) \<Longrightarrow>
   render self = Inr (Some True, self)"
  by (simp add: render_def render_hash_changed_def)

lemma render_stale:
  "menu self = Some m \<Longrightarrow> last_render_hash self \<noteq> Some (render_key_of self m) \<Longrightarrow>
   render self =
     (case recompute (self\<lparr>last_render_hash := Some (render_key_of self m)\<rparr>)
             (menu_prev_condition m) of
        Inl e \<Rightarrow> Inl e | Inr s \<Rightarrow> Inr (None, s))"
  by (simp add: render_def render_hash_changed_def)

lemma polygon_for_style_returns:
  "check_menubar_style (style s) \<Longrightarrow> \<not> isl (polygon_for_style s)"
  apply (simp add: check_menubar_style_def)
  apply (elim disjE)
  apply (simp_all add: polygon_for_style_def Let_def style_defs)
  done

lemma polygon_for_style_length:
  "polygon_for_style s = Inr r \<Longrightarrow>
   length (fst r) = (if style s = MENUBAR_STYLE_ADAPTIVE then 6
                     else if style s = MENUBAR_STYLE_NONE then 2 else 4)"
  by (auto simp: polygon_for_style_def Let_def style_defs split: if_splits)

lemma polygon_for_style_invalid:
  "\<not> check_menubar_style (style s) \<Longrightarrow>
   polygon_for_style s = Inl (ValueError ''invalid menubar mode'')"
  by (auto simp: check_menubar_style_def polygon_for_style_def Let_def)

lemma create_backbox_keeps:
  "polygon_pos (create_backbox s c) = polygon_pos s"
  "style (create_backbox s c) = style s"
  "modify_scrollarea (create_backbox s c) = modify_scrollarea s"
  "last_render_hash (create_backbox s c) = last_render_hash s"
  "menu (create_backbox s c) = menu s"
  "rect (create_backbox s c) = rect s"
  "title (create_backbox s c) = title s"
  "visible (create_backbox s c) = visible s"
  "font_selected_color (create_backbox s c) = font_selected_color s"
  "box_mode (create_backbox s c) = box_mode s"
  "backbox (create_backbox s c) = backbox s"
  by (simp_all add: create_backbox_def Let_def)

lemma recompute_returns:
  assumes "check_menubar_style (style s)"
  shows "\<not> isl (recompute s mpc)"
proof -
  let ?s3 = "s\<lparr>box_mode := (if mpc then MODE_CLOSE else MODE_BACK),
               surface_size := Some (render_string_size s (title s)),
               rect := (rect s)\<lparr>rect_width := fst (render_string_size s (title s)),
                               rect_height := snd (render_string_size s (title s))\<rparr>\<rparr>"
  have "check_menubar_style (style ?s3)" using assms by simp
  from polygon_for_style_returns[OF this]
  obtain r where r: "polygon_for_style ?s3 = Inr r"
    by (cases "polygon_for_style ?s3") auto
  show ?thesis
    using r by (simp add: recompute_def Let_def split: prod.splits)
qed

lemma recompute_fields:
  assumes "recompute s mpc = Inr s'"
  shows "style s' = style s \<and> modify_scrollarea s' = modify_scrollarea s \<and>
    last_render_hash s' = last_render_hash s \<and> menu s' = menu s \<and>
    title s' = title s \<and> visible s' = visible s \<and>
    font_selected_color s' = font_selected_color s \<and>
    rect_x (rect s') = rect_x (rect s) \<and> rect_y (rect s') = rect_y (rect s) \<and>
    box_mode s' = (if mpc then MODE_CLOSE else MODE_BACK) \<and> backbox s' = backbox s"
  using assms
  by (auto simp: recompute_def Let_def create_backbox_keeps split: sum.splits prod.splits)

lemma recompute_polygon:
  assumes "recompute s mpc = Inr s'"
  shows "\<exists>ps. polygon_pos s' = Some ps \<and>
       length ps = (if style s = MENUBAR_STYLE_ADAPTIVE then 6
                    else if style s = MENUBAR_STYLE_NONE then 2 else 4)"
  using assms
  by (auto simp: recompute_def Let_def create_backbox_keeps split: sum.splits prod.splits
      dest!: polygon_for_style_length)

lemma render_fields:
  assumes "render s = Inr (r, s')"
  shows "style s' = style s \<and> modify_scrollarea s' = modify_scrollarea s \<and>
    menu s' = menu s \<and> backbox s' = backbox s"
proof (cases "menu s")
  case None
  then show ?thesis using assms by (simp add: render_no_menu)
next
  case (Some m)
  show ?thesis
  proof (cases "last_render_hash s = Some (render_key_of s m)")
    case True
    then show ?thesis using assms Some by (simp add: render_unchanged)
  next
    case False
    then show ?thesis using assms Some
      by (auto simp: render_stale split: sum.splits dest!: recompute_fields)
  qed
qed

lemma render_recomputed:
  assumes "menu self = Some m"
    and "last_render_hash self \<noteq> Some (render_key_of self m)"
    and "check_menubar_style (style self)"
  shows "\<exists>self'. render self = Inr (None, self') \<and>
           recompute (self\<lparr>last_render_hash := Some (render_key_of self m)\<rparr>)
             (menu_prev_condition m) = Inr self'"
proof -
  let ?s1 = "self\<lparr>last_render_hash := Some (render_key_of self m)\<rparr>"
  have "check_menubar_style (style ?s1)" using assms(3) by simp
  from recompute_returns[OF this, of "menu_prev_condition m"]
  obtain s' where "recompute ?s1 (menu_prev_condition m) = Inr s'"
    by (cases "recompute ?s1 (menu_prev_condition m)") auto
  then show ?thesis using assms(1,2) by (simp add: render_stale)
qed

text \<open>
  Claim C1. For a menu bar with an owning menu, a call of \<^verbatim>\<open>_render\<close> that recomputes
  (the render hash is stale) and whose style is one of the seven returns normally and
  leaves a polygon with the documented number of points: 6 for ADAPTIVE, 4 for SIMPLE,
  TITLE_ONLY, TITLE_ONLY_DIAGONAL, UNDERLINE and UNDERLINE_TITLE, 2 for NONE.
\<close>

theorem render_polygon_point_count:
  assumes "menu self = Some m"
    and "last_render_hash self \<noteq> Some (render_key_of self m)"
    and "check_menubar_style (style self)"
  shows "\<exists>self' ps. render self = Inr (None, self') \<and> polygon_pos self' = Some ps \<and>
     (style self = MENUBAR_STYLE_ADAPTIVE \<longrightarrow> length ps = 6) \<and>
     (style self = MENUBAR_STYLE_SIMPLE \<longrightarrow> length ps = 4) \<and>
     (style self = MENUBAR_STYLE_TITLE_ONLY \<longrightarrow> length ps = 4) \<and>
     (style self = MENUBAR_STYLE_TITLE_ONLY_DIAGONAL \<longrightarrow> length ps = 4) \<and>
     (style self = MENUBAR_STYLE_NONE \<longrightarrow> length ps = 2) \<and>
     (style self = MENUBAR_STYLE_UNDERLINE \<longrightarrow> length ps = 4) \<and>
     (style self = MENUBAR_STYLE_UNDERLINE_TITLE \<longrightarrow> length ps = 4)"
proof -
  from render_recomputed[OF assms]
  obtain self' where r: "render self = Inr (None, self')"
    and c: "recompute (self\<lparr>last_render_hash := Some (render_key_of self m)\<rparr>)
             (menu_prev_condition m) = Inr self'"
    by blast
  from recompute_polygon[OF c]
  obtain ps where ps: "polygon_pos self' = Some ps"
    and len: "length ps = (if style self = MENUBAR_STYLE_ADAPTIVE then 6
                    else if style self = MENUBAR_STYLE_NONE then 2 else 4)"
    by auto
  have "(style self = MENUBAR_STYLE_ADAPTIVE \<longrightarrow> length ps = 6) \<and>
     (style self = MENUBAR_STYLE_SIMPLE \<longrightarrow> length ps = 4) \<and>
     (style self = MENUBAR_STYLE_TITLE_ONLY \<longrightarrow> length ps = 4) \<and>
     (style self = MENUBAR_STYLE_TITLE_ONLY_DIAGONAL \<longrightarrow> length ps = 4) \<and>
     (style self = MENUBAR_STYLE_NONE \<longrightarrow> length ps = 2) \<and>
     (style self = MENUBAR_STYLE_UNDERLINE \<longrightarrow> length ps = 4) \<and>
     (style self = MENUBAR_STYLE_UNDERLINE_TITLE \<longrightarrow> length ps = 4)"
    using len by (simp add: style_defs)
  with r ps show ?thesis by blast
qed

theorem render_polygon_point_count_witness:
  "\<exists>self' ps. render (example_bar example_menu MENUBAR_STYLE_ADAPTIVE True) = Inr (None, self') \<and>
     polygon_pos self' = Some ps \<and> length ps = 6"
proof -
  have h1: "menu (example_bar example_menu MENUBAR_STYLE_ADAPTIVE True) = Some example_menu"
    by (simp add: example_defs)
  have h2: "last_render_hash (example_bar example_menu MENUBAR_STYLE_ADAPTIVE True) \<noteq>
      Some (render_key_of (example_bar example_menu MENUBAR_STYLE_ADAPTIVE True) example_menu)"
    by (simp add: example_defs)
  have h3: "check_menubar_style (style (example_bar example_menu MENUBAR_STYLE_ADAPTIVE True))"
    by (simp add: example_defs check_menubar_style_def)
  have h4: "style (example_bar example_menu MENUBAR_STYLE_ADAPTIVE True) = MENUBAR_STYLE_ADAPTIVE"
    by (simp add: example_defs)
  show ?thesis
    using render_polygon_point_count[OF h1 h2 h3] h4 by auto
qed





lemma create_backbox_glyph:
  assumes "backbox s"
  shows "\<exists>r. backbox_rect (create_backbox s c) = Some r \<and>
     (box_mode s = MODE_CLOSE \<longrightarrow>
        backbox_pos (create_backbox s c) = Some
          [(rect_left r + 4, rect_top r + 4), (rect_centerx r, rect_centery r),
           (rect_right r - 4, rect_top r + 4), (rect_centerx r, rect_centery r),
           (rect_right r - 4, rect_bottom r - 4), (rect_centerx r, rect_centery r),
           (rect_left r + 4, rect_bottom r - 4), (rect_centerx r, rect_centery r),
           (rect_left r + 4, rect_top r + 4)]) \<and>
     (box_mode s = MODE_BACK \<longrightarrow>
        backbox_pos (create_backbox s c) = Some
          [(rect_left r + 5, rect_centery r), (rect_centerx r, rect_top r + 5),
           (rect_centerx r, rect_centery r - 2), (rect_right r - 5, rect_centery r - 2),
           (rect_right r - 5, rect_centery r + 2), (rect_centerx r, rect_centery r + 2),
           (rect_centerx r, rect_bottom r - 5), (rect_left r + 5, rect_centery r)])"
  using assms by (simp add: create_backbox_def Let_def MODE_CLOSE_def MODE_BACK_def)

lemma recompute_glyph:
  assumes c: "recompute s at_root = Inr s'" and b: "backbox s"
  shows "\<exists>r. backbox_rect s' = Some r \<and>
     (at_root \<longrightarrow>
        backbox_pos s' = Some
          [(rect_left r + 4, rect_top r + 4), (rect_centerx r, rect_centery r),
           (rect_right r - 4, rect_top r + 4), (rect_centerx r, rect_centery r),
           (rect_right r - 4, rect_bottom r - 4), (rect_centerx r, rect_centery r),
           (rect_left r + 4, rect_bottom r - 4), (rect_centerx r, rect_centery r),
           (rect_left r + 4, rect_top r + 4)]) \<and>
     (\<not> at_root \<longrightarrow>
        backbox_pos s' = Some
          [(rect_left r + 5, rect_centery r), (rect_centerx r, rect_top r + 5),
           (rect_centerx r, rect_centery r - 2), (rect_right r - 5, rect_centery r - 2),
           (rect_right r - 5, rect_centery r + 2), (rect_centerx r, rect_centery r + 2),
           (rect_centerx r, rect_bottom r - 5), (rect_left r + 5, rect_centery r)])"
proof -
  from c obtain s4 cs where s': "s' = create_backbox s4 cs"
    and bb: "backbox s4 = backbox s"
    and bm: "box_mode s4 = (if at_root then MODE_CLOSE else MODE_BACK)"
    by (auto simp: recompute_def Let_def split: sum.splits prod.splits)
  from b bb have "backbox s4" by simp
  from create_backbox_glyph[OF this, of cs] bm show ?thesis
    unfolding s' by (cases at_root) auto
qed

text \<open>
  Claim C7. Take a menu bar with the back box enabled whose style is one of the seven.
  \<^verbatim>\<open>_render\<close> returns. When it recomputes (owning menu, stale render hash) it leaves the
  widget in CLOSE mode at the navigation root and in BACK mode otherwise, with a back-box
  rect and a glyph of exactly 9 points in CLOSE mode (the cross: corners moved in by 4
  pixels, alternating with the centre) and exactly 8 points in BACK mode (the arrow:
  offsets of 5 and 2 pixels from the edges and the centre). When it does not recompute (no
  menu, or an unchanged hash) mode, rect and glyph are those of the last recomputation.
\<close>

theorem render_backbox_glyph:
  assumes "backbox self" and "check_menubar_style (style self)"
  shows "\<exists>res self'. render self = Inr (res, self') \<and>
     ((menu self = None \<or>
       (\<exists>m. menu self = Some m \<and> last_render_hash self = Some (render_key_of self m))) \<longrightarrow>
        self' = self) \<and>
     (\<forall>m. menu self = Some m \<and> last_render_hash self \<noteq> Some (render_key_of self m) \<longrightarrow>
        (\<exists>r g. backbox_rect self' = Some r \<and> backbox_pos self' = Some g \<and>
          (box_mode self' = MODE_CLOSE \<or> box_mode self' = MODE_BACK) \<and>
          (box_mode self' = MODE_CLOSE \<longleftrightarrow> menu_prev_condition m) \<and>
          (box_mode self' = MODE_CLOSE \<longrightarrow> length g = 9 \<and> g =
             [(rect_left r + 4, rect_top r + 4), (rect_centerx r, rect_centery r),
              (rect_right r - 4, rect_top r + 4), (rect_centerx r, rect_centery r),
              (rect_right r - 4, rect_bottom r - 4), (rect_centerx r, rect_centery r),
              (rect_left r + 4, rect_bottom r - 4), (rect_centerx r, rect_centery r),
              (rect_left r + 4, rect_top r + 4)]) \<and>
          (box_mode self' = MODE_BACK \<longrightarrow> length g = 8 \<and> g =
             [(rect_left r + 5, rect_centery r), (rect_centerx r, rect_top r + 5),
              (rect_centerx r, rect_centery r - 2), (rect_right r - 5, rect_centery r - 2),
              (rect_right r - 5, rect_centery r + 2), (rect_centerx r, rect_centery r + 2),
              (rect_centerx r, rect_bottom r - 5), (rect_left r + 5, rect_centery r)])))"
proof (cases "\<exists>m. menu self = Some m \<and> last_render_hash self \<noteq> Some (render_key_of self m)")
  case False
  then have "menu self = None \<or>
     (\<exists>m. menu self = Some m \<and> last_render_hash self = Some (render_key_of self m))"
    by (cases "menu self") auto
  then have "\<exists>res. render self = Inr (res, self)"
    using render_no_menu[of self] render_unchanged[of self] by auto
  with False show ?thesis by auto
next
  case True
  then obtain m where m: "menu self = Some m"
    and st: "last_render_hash self \<noteq> Some (render_key_of self m)" by blast
  let ?s1 = "self\<lparr>last_render_hash := Some (render_key_of self m)\<rparr>"
  from render_recomputed[OF m st assms(2)]
  obtain self' where r: "render self = Inr (None, self')"
    and c: "recompute ?s1 (menu_prev_condition m) = Inr self'"
    by blast
  have b: "backbox ?s1" using assms(1) by simp
  from recompute_fields[OF c]
  have bm: "box_mode self' = (if menu_prev_condition m then MODE_CLOSE else MODE_BACK)"
    by simp
  from recompute_glyph[OF c b] obtain rr where
    rr: "backbox_rect self' = Some rr"
    and g1: "menu_prev_condition m \<longrightarrow> backbox_pos self' = Some
          [(rect_left rr + 4, rect_top rr + 4), (rect_centerx rr, rect_centery rr),
           (rect_right rr - 4, rect_top rr + 4), (rect_centerx rr, rect_centery rr),
           (rect_right rr - 4, rect_bottom rr - 4), (rect_centerx rr, rect_centery rr),
           (rect_left rr + 4, rect_bottom rr - 4), (rect_centerx rr, rect_centery rr),
           (rect_left rr + 4, rect_top rr + 4)]"
    and g2: "\<not> menu_prev_condition m \<longrightarrow> backbox_pos self' = Some
          [(rect_left rr + 5, rect_centery rr), (rect_centerx rr, rect_top rr + 5),
           (rect_centerx rr, rect_centery rr - 2), (rect_right rr - 5, rect_centery rr - 2),
           (rect_right rr - 5, rect_centery rr + 2), (rect_centerx rr, rect_centery rr + 2),
           (rect_centerx rr, rect_bottom rr - 5), (rect_left rr + 5, rect_centery rr)]"
    by blast
  show ?thesis
  proof (cases "menu_prev_condition m")
    case True
    with r rr g1 bm m st show ?thesis by (simp add: MODE_CLOSE_def MODE_BACK_def)
  next
    case False
    with r rr g2 bm m st show ?thesis by (simp add: MODE_CLOSE_def MODE_BACK_def)
  qed
qed

theorem render_backbox_glyph_witness:
  "(\<exists>self' g. render (example_bar example_menu MENUBAR_STYLE_ADAPTIVE True) = Inr (None, self') \<and>
      box_mode self' = MODE_CLOSE \<and> backbox_rect self' = Some (Rect 580 4 16 16) \<and>
      backbox_pos self' = Some g \<and> length g = 9) \<and>
   (\<exists>self' g. render (example_bar example_submenu MENUBAR_STYLE_SIMPLE True) = Inr (None, self') \<and>
      box_mode self' = MODE_BACK \<and> backbox_rect self' = Some (Rect 564 4 32 32) \<and>
      backbox_pos self' = Some g \<and> length g = 8)"
proof -
  let ?a = "example_bar example_menu MENUBAR_STYLE_ADAPTIVE True"
  let ?b = "example_bar example_submenu MENUBAR_STYLE_SIMPLE True"
  have a: "backbox ?a" "check_menubar_style (style ?a)"
    and a': "menu ?a = Some example_menu"
      "last_render_hash ?a \<noteq> Some (render_key_of ?a example_menu)"
    by (simp_all add: example_defs check_menubar_style_def)
  have b: "backbox ?b" "check_menubar_style (style ?b)"
    and b': "menu ?b = Some example_submenu"
      "last_render_hash ?b \<noteq> Some (render_key_of ?b example_submenu)"
    by (simp_all add: example_defs check_menubar_style_def)
  have ra: "backbox_rect (snd (projr (render ?a))) = Some (Rect 580 4 16 16)"
      "fst (projr (render ?a)) = None"
    by (simp_all add: example_defs render_defs)
  have rb: "backbox_rect (snd (projr (render ?b))) = Some (Rect 564 4 32 32)"
      "fst (projr (render ?b)) = None"
    by (simp_all add: example_defs render_defs)
  have ma: "menu_prev_condition example_menu" "\<not> menu_prev_condition example_submenu"
    by (simp_all add: example_defs menu_prev_condition_def)
  from render_backbox_glyph[OF a] a' ma(1) ra
  have 1: "\<exists>self' g. render ?a = Inr (None, self') \<and>
      box_mode self' = MODE_CLOSE \<and> backbox_rect self' = Some (Rect 580 4 16 16) \<and>
      backbox_pos self' = Some g \<and> length g = 9"
    by auto
  from render_backbox_glyph[OF b] b' ma(2) rb
  have 2: "\<exists>self' g. render ?b = Inr (None, self') \<and>
      box_mode self' = MODE_BACK \<and> backbox_rect self' = Some (Rect 564 4 32 32) \<and>
      backbox_pos self' = Some g \<and> length g = 8"
    by auto
  from 1 2 show ?thesis by blast
qed

lemma render_returns:
  assumes "check_menubar_style (style self)"
  shows "\<not> isl (render self)"
proof (cases "menu self")
  case None
  then show ?thesis by (simp add: render_no_menu)
next
  case (Some m)
  show ?thesis
  proof (cases "last_render_hash self = Some (render_key_of self m)")
    case True
    with Some show ?thesis by (simp add: render_unchanged)
  next
    case False
    from render_recomputed[OF Some False assms] show ?thesis by auto
  qed
qed

lemma set_title_fields:
  assumes "set_title s t ox oy = Inr s'"
  shows "modify_scrollarea s' = modify_scrollarea s \<and> style s' = style s"
  using assms
  by (auto simp: set_title_def Let_def split: option.splits sum.splits prod.splits
      dest!: render_fields)

lemma MenuBar_init_fields:
  assumes "MenuBar_init w t wd bg bb mode ms ox oy = Inr s"
  shows "modify_scrollarea s = ms \<and> style s = mode"
  using set_title_fields[OF assms[unfolded MenuBar_init_def]]
  by (simp add: widget.defs menubar.defs)

text \<open>
  Claim C10. A menu bar constructed with \<^verbatim>\<open>modify_scrollarea=False\<close> keeps the flag.
  With the flag off, \<^verbatim>\<open>get_scrollbar_style_change\<close> returns \<open>(0, (0, 0))\<close> for every
  position, the east query of an ADAPTIVE bar included, whenever the render it starts with
  returns; and that render returns for each of the seven styles.
\<close>

theorem scrollbar_style_change_unmodified:
  "(MenuBar_init w t wd bg bb mode ms ox oy = Inr self0 \<longrightarrow>
      modify_scrollarea self0 = ms \<and> style self0 = mode) \<and>
   (\<not> modify_scrollarea self \<longrightarrow>
      get_scrollbar_style_change self position =
        (case render self of
           Inl e \<Rightarrow> Inl e
         | Inr (res, self1) \<Rightarrow> Inr ((0, (0, 0)), self1)) \<and>
      (check_menubar_style (style self) \<longrightarrow>
         (\<exists>self1. get_scrollbar_style_change self position = Inr ((0, (0, 0)), self1))))"
proof -
  have 1: "MenuBar_init w t wd bg bb mode ms ox oy = Inr self0 \<longrightarrow>
      modify_scrollarea self0 = ms \<and> style self0 = mode"
    using MenuBar_init_fields by blast
  have 2: "get_scrollbar_style_change self position =
        (case render self of
           Inl e \<Rightarrow> Inl e
         | Inr (res, self1) \<Rightarrow> Inr ((0, (0, 0)), self1))"
    if a: "\<not> modify_scrollarea self"
  proof (cases "render self")
    case (Inl e)
    then show ?thesis by (simp add: get_scrollbar_style_change_def)
  next
    case (Inr p)
    obtain res self1 where p: "p = (res, self1)" by (cases p) auto
    from render_fields[OF Inr[unfolded p]] a have "\<not> modify_scrollarea self1" by simp
    with Inr p show ?thesis by (simp add: get_scrollbar_style_change_def)
  qed
  have 3: "\<exists>self1. get_scrollbar_style_change self position = Inr ((0, (0, 0)), self1)"
    if a: "\<not> modify_scrollarea self" and v: "check_menubar_style (style self)"
  proof -
    from v have "\<not> isl (render self)" by (rule render_returns)
    then obtain res self1 where "render self = Inr (res, self1)"
      by (cases "render self") auto
    with 2[OF a] show ?thesis by simp
  qed
  from 1 2 3 show ?thesis by blast
qed

theorem scrollbar_style_change_unmodified_witness:
  "\<not> isl (MenuBar_init (example_widget example_menu) ''Menu'' 600 (RGB 70 70 70) True
            MENUBAR_STYLE_ADAPTIVE False 5 (- 1)) \<and>
   \<not> modify_scrollarea (projr (MenuBar_init (example_widget example_menu) ''Menu'' 600
            (RGB 70 70 70) True MENUBAR_STYLE_ADAPTIVE False 5 (- 1))) \<and>
   (\<exists>self1. get_scrollbar_style_change (example_bar example_menu MENUBAR_STYLE_ADAPTIVE False)
              POSITION_EAST = Inr ((0, (0, 0)), self1))"
proof -
  let ?i = "MenuBar_init (example_widget example_menu) ''Menu'' 600 (RGB 70 70 70) True
            MENUBAR_STYLE_ADAPTIVE False 5 (- 1)"
  let ?b = "example_bar example_menu MENUBAR_STYLE_ADAPTIVE False"
  have i: "\<not> isl ?i"
    by (simp add: MenuBar_init_def set_title_def example_defs render_defs)
  then obtain s where s: "?i = Inr s" by (cases ?i) auto
  from scrollbar_style_change_unmodified[of "example_widget example_menu" "''Menu''" 600
      "RGB 70 70 70" True MENUBAR_STYLE_ADAPTIVE False 5 "- 1" s] s
  have m: "\<not> modify_scrollarea s" by simp
  have b: "\<not> modify_scrollarea ?b" "check_menubar_style (style ?b)"
    by (simp_all add: example_defs check_menubar_style_def)
  from scrollbar_style_change_unmodified[of _ _ _ _ _ _ _ _ _ _ ?b POSITION_EAST] b
  have "\<exists>self1. get_scrollbar_style_change ?b POSITION_EAST = Inr ((0, (0, 0)), self1)"
    by blast
  with i m s show ?thesis by simp
qed












section \<open>Properties of the theme\<close>

subsection \<open>Construction\<close>

lemmas theme_eval = Theme_init_def theme_schema_def Theme_get_def unset_theme_def bindE_def
  color3_def color4_def pair2_def all_types_def assert_color_def assert_that_def is_color_def
  channel_ok_def assert_res_def

lemma Theme_get_rest:
  assumes "Theme_get kw key tys d = Inr (v, kw')"
  shows "kw' = filter (\<lambda>p. fst p \<noteq> key) kw"
proof (cases "map_of kw key")
  case None
  then have "key \<notin> fst ` set kw" by (simp add: map_of_eq_None_iff)
  then have "filter (\<lambda>p. fst p \<noteq> key) kw = kw" by (auto simp: filter_id_conv)
  with assms None show ?thesis by (simp add: Theme_get_def)
next
  case (Some x)
  have "AList.delete key kw = filter (\<lambda>p. fst p \<noteq> key) kw"
    unfolding AList.delete_eq by (induction kw) auto
  with assms Some show ?thesis
    by (auto simp: Theme_get_def bindE_def Let_def split: sum.splits if_splits)
qed

lemma init_fields_rest:
  assumes "init_fields rows kw th = Inr (th', kw')"
  shows "kw' = filter (\<lambda>p. fst p \<notin> set (map (\<lambda>(a, key, tys, dflt). key) rows)) kw"
  using assms
proof (induction rows arbitrary: kw th)
  case Nil
  then show ?case by simp
next
  case (Cons row rows)
  obtain a key tys d where row: "row = (a, key, tys, d)" by (cases row) auto
  from Cons.prems row obtain v kw1 where
    g: "Theme_get kw key tys d = Inr (v, kw1)"
    and r: "init_fields rows kw1 (th(a := v)) = Inr (th', kw')"
    by (auto split: sum.splits)
  from Theme_get_rest[OF g] have kw1: "kw1 = filter (\<lambda>p. fst p \<noteq> key) kw" .
  from Cons.IH[OF r] kw1 row show ?case
    by (simp add: conj_commute)
qed

lemma leftover_nonempty:
  assumes "k \<in> fst ` set kw" and "k \<notin> set theme_keys"
  shows "filter (\<lambda>p. fst p \<notin> set theme_keys) kw \<noteq> []"
  using assms by (auto simp: filter_empty_conv)

text \<open>
  Claim C4, as amended. If the keyword arguments hold a key outside the schema,
  construction always fails. Once every assignment of \<^verbatim>\<open>__init__\<close> has gone through
  (all recognised keys consumed), the error is the \<^verbatim>\<open>ValueError\<close> that names the first
  key outside the schema; before that point, a recognised key with a value of the wrong
  type fails its own check first.
\<close>

theorem Theme_init_unknown_key:
  assumes "k \<in> fst ` set kwargs" and "k \<notin> set theme_keys"
  shows "(\<exists>e. Theme_init kwargs = Inl e) \<and>
         (\<forall>th rest. init_fields theme_schema kwargs unset_theme = Inr (th, rest) \<longrightarrow>
            (\<exists>k' v rest'. filter (\<lambda>p. fst p \<notin> set theme_keys) kwargs = (k', v) # rest' \<and>
               Theme_init kwargs =
                 Inl (ValueError (''parameter Theme.'' @ k' @ '' does not exist''))))"
proof -
  have 2: "\<exists>k' v rest'. filter (\<lambda>p. fst p \<notin> set theme_keys) kwargs = (k', v) # rest' \<and>
               Theme_init kwargs =
                 Inl (ValueError (''parameter Theme.'' @ k' @ '' does not exist''))"
    if i: "init_fields theme_schema kwargs unset_theme = Inr (th, rest)" for th rest
  proof -
    from init_fields_rest[OF i]
    have rest: "rest = filter (\<lambda>p. fst p \<notin> set theme_keys) kwargs"
      by (simp add: theme_keys_def)
    with leftover_nonempty[OF assms] have "rest \<noteq> []" by simp
    then obtain k' v rest' where c: "rest = (k', v) # rest'"
      by (cases rest) auto
    have "Theme_init kwargs = Inl (ValueError (''parameter Theme.'' @ k' @ '' does not exist''))"
      unfolding Theme_init_def i c by simp
    moreover have "filter (\<lambda>p. fst p \<notin> set theme_keys) kwargs = (k', v) # rest'"
      using rest c by simp
    ultimately show ?thesis by blast
  qed
  have 1: "\<exists>e. Theme_init kwargs = Inl e"
  proof (cases "init_fields theme_schema kwargs unset_theme")
    case (Inl e)
    then show ?thesis by (simp add: Theme_init_def)
  next
    case (Inr r)
    then obtain th rest where "init_fields theme_schema kwargs unset_theme = Inr (th, rest)"
      by (cases r) auto
    from 2[OF this] show ?thesis by blast
  qed
  from 1 2 show ?thesis by blast
qed

theorem Theme_init_unknown_key_witness:
  "Theme_init [(''title_font_size'', PInt 50), (''widget_background_inflate'', pair2 1 1)] =
     Inl (ValueError ''parameter Theme.widget_background_inflate does not exist'')"
proof -
  let ?kw = "[(''title_font_size'', PInt 50), (''widget_background_inflate'', pair2 1 1)]"
  have a: "''widget_background_inflate'' \<in> fst ` set ?kw" by simp
  have b: "''widget_background_inflate'' \<notin> set theme_keys"
    by (simp add: theme_keys_def theme_schema_def)
  have c: "\<not> isl (init_fields theme_schema ?kw unset_theme)"
    by (simp add: theme_eval)
  then obtain th rest where i: "init_fields theme_schema ?kw unset_theme = Inr (th, rest)"
    by (cases "init_fields theme_schema ?kw unset_theme") auto
  have f: "filter (\<lambda>p. fst p \<notin> set theme_keys) ?kw = [(''widget_background_inflate'', pair2 1 1)]"
    by (simp add: theme_keys_def theme_schema_def)
  from Theme_init_unknown_key[OF a b] i f show ?thesis by auto
qed

theorem Theme_init_unknown_key_counterexample:
  "Theme_init [(''background_color'', color3 300 0 0), (''foo'', PInt 1)] = Inl AssertionError"
  by (simp add: theme_eval)

subsection \<open>Background opacity\<close>





subsection \<open>Normalisation of colours\<close>

lemma format_opacity_tuple3:
  "is_color (PTuple [r, g, b]) \<Longrightarrow>
   format_opacity (PTuple [r, g, b]) = Inr (PTuple [r, g, b, PInt 255])"
  by (simp add: format_opacity_def bindE_def assert_color_def assert_that_def)

lemma format_opacity_list3:
  "is_color (PList [r, g, b]) \<Longrightarrow>
   format_opacity (PList [r, g, b]) = Inr (PTuple [r, g, b, PInt 255])"
  by (simp add: format_opacity_def bindE_def assert_color_def assert_that_def)

lemma format_opacity_tuple4:
  "is_color (PTuple [r, g, b, a]) \<Longrightarrow>
   format_opacity (PTuple [r, g, b, a]) = Inr (PTuple [r, g, b, a])"
  by (simp add: format_opacity_def bindE_def assert_color_def assert_that_def)

lemma format_opacity_list4:
  "is_color (PList [r, g, b, a]) \<Longrightarrow>
   format_opacity (PList [r, g, b, a]) = Inr (PTuple [r, g, b, a])"
  by (simp add: format_opacity_def bindE_def assert_color_def assert_that_def)

lemmas validate_eval =
  validate_def validate_types_def validate_vectors_def validate_sizes_def color_attrs_def
  format_opacity_def vec_to_tuple_def set_color_def py_index_def py_ne_def py_ge_def py_gt_def
  py_and_def index_ge0_def assert_res_def assert_that_def assert_color_def
  assert_position_def assert_alignment_def is_position_def is_alignment_def positions_def
  alignments_def is_color_def channel_ok_def is_vector_def len_between_def is_int_or_float_def
  check_menubar_style_val_def bindE_def HighlightSelection_def FONT_OPEN_SANS_def
  MENUBAR_STYLE_ADAPTIVE_def MENUBAR_STYLE_SIMPLE_def MENUBAR_STYLE_TITLE_ONLY_def
  MENUBAR_STYLE_TITLE_ONLY_DIAGONAL_def MENUBAR_STYLE_NONE_def MENUBAR_STYLE_UNDERLINE_def
  MENUBAR_STYLE_UNDERLINE_TITLE_def
  POSITION_NORTHWEST_def POSITION_NORTH_def POSITION_CENTER_def POSITION_NORTHEAST_def
  POSITION_SOUTH_def POSITION_SOUTHEAST_def POSITION_SOUTHWEST_def POSITION_WEST_def
  POSITION_EAST_def ALIGN_CENTER_def ALIGN_LEFT_def ALIGN_RIGHT_def

lemma Theme_init_validate_example:
  assumes "gsfp (PStr POSITION_SOUTHEAST) = Inr p" and "p \<noteq> PNone"
  shows "\<exists>th th'. Theme_init [(''background_color'', color3 10 20 30)] = Inr th \<and>
       validate gsfp th = Inr th' \<and> th' Background_color = color4 10 20 30 255"
  using assms
  by (simp add: Theme_init_def theme_schema_def Theme_get_def unset_theme_def color3_def
      color4_def pair2_def all_types_def validate_eval)

text \<open>
  Claim C3. \<^verbatim>\<open>_format_opacity\<close> turns a valid colour of three channels into the tuple
  of these channels and 255, and returns the four channels of a valid four-channel tuple or
  list as a tuple. Hence a theme constructed with \<^verbatim>\<open>background_color=(10, 20, 30)\<close>
  validates (for any position helper that accepts the default scroll-area position) and
  has the background colour \<open>(10, 20, 30, 255)\<close> afterwards.
\<close>

theorem format_opacity_normalises:
  "(is_color (PTuple [r, g, b]) \<longrightarrow>
      format_opacity (PTuple [r, g, b]) = Inr (PTuple [r, g, b, PInt 255])) \<and>
   (is_color (PTuple [r, g, b, a]) \<longrightarrow>
      format_opacity (PTuple [r, g, b, a]) = Inr (PTuple [r, g, b, a])) \<and>
   (is_color (PList [r, g, b, a]) \<longrightarrow>
      format_opacity (PList [r, g, b, a]) = Inr (PTuple [r, g, b, a])) \<and>
   (get_scrollbars_from_position (PStr POSITION_SOUTHEAST) = Inr p \<and> p \<noteq> PNone \<longrightarrow>
      (\<exists>th th'. Theme_init [(''background_color'', color3 10 20 30)] = Inr th \<and>
         validate get_scrollbars_from_position th = Inr th' \<and>
         th' Background_color = color4 10 20 30 255))"
  using format_opacity_tuple3[of r g b] format_opacity_tuple4[of r g b a]
    format_opacity_list4[of r g b a]
    Theme_init_validate_example[of get_scrollbars_from_position p]
  by blast

theorem format_opacity_normalises_witness:
  "format_opacity (PTuple [PInt 10, PInt 20, PInt 30]) =
     Inr (PTuple [PInt 10, PInt 20, PInt 30, PInt 255]) \<and>
   format_opacity (PTuple [PInt 10, PInt 20, PInt 30, PInt 40]) =
     Inr (PTuple [PInt 10, PInt 20, PInt 30, PInt 40]) \<and>
   format_opacity (PList [PInt 10, PInt 20, PInt 30, PInt 40]) =
     Inr (PTuple [PInt 10, PInt 20, PInt 30, PInt 40]) \<and>
   (\<exists>th th'. Theme_init [(''background_color'', color3 10 20 30)] = Inr th \<and>
      validate example_scrollbars th = Inr th' \<and>
      th' Background_color = color4 10 20 30 255)"
proof -
  have c: "is_color (PTuple [PInt 10, PInt 20, PInt 30])"
      "is_color (PTuple [PInt 10, PInt 20, PInt 30, PInt 40])"
      "is_color (PList [PInt 10, PInt 20, PInt 30, PInt 40])"
    by (simp_all add: is_color_def channel_ok_def)
  have g: "example_scrollbars (PStr POSITION_SOUTHEAST) = Inr (PTuple [PStr POSITION_SOUTHEAST]) \<and>
           PTuple [PStr POSITION_SOUTHEAST] \<noteq> PNone"
    by (simp add: example_scrollbars_def is_position_def positions_def POSITION_SOUTHEAST_def
        POSITION_CENTER_def)
  from format_opacity_normalises[of "PInt 10" "PInt 20" "PInt 30" "PInt 40" example_scrollbars
      "PTuple [PStr POSITION_SOUTHEAST]"] c g
  show ?thesis by blast
qed

subsection \<open>The focus colour\<close>

lemma map_attrs_notin:
  "a \<notin> set as \<Longrightarrow>
   map_attrs f as (th(a := v)) =
     (case map_attrs f as th of Inl e \<Rightarrow> Inl e | Inr t \<Rightarrow> Inr (t(a := v)))"
proof (induction as arbitrary: th)
  case Nil
  then show ?case by (simp add: fun_eq_iff)
next
  case (Cons x xs)
  then have ne: "x \<noteq> a" and notin: "a \<notin> set xs" by auto
  have fx: "f ((th(a := v)) x) = f (th x)" using ne by simp
  show ?case
  proof (cases "f (th x)")
    case (Inl e)
    show ?thesis unfolding map_attrs.simps fx Inl by simp
  next
    case (Inr w)
    have tw: "(th(a := v))(x := w) = (th(x := w))(a := v)"
      using ne by (rule fun_upd_twist[symmetric, THEN sym, OF not_sym])
    show ?thesis
      unfolding map_attrs.simps fx Inr tw sum.case
      by (rule Cons.IH[OF notin])
  qed
qed

lemma map_attrs_in:
  assumes "distinct as" and "a \<in> set as" and "f c = Inr c'"
    and "map_attrs f as (th(a := d)) = Inr s"
  shows "map_attrs f as (th(a := c)) = Inr (s(a := c'))"
  using assms(1,2,4)
proof (induction as arbitrary: th)
  case Nil
  then show ?case by simp
next
  case (Cons x xs)
  show ?case
  proof (cases "x = a")
    case True
    with Cons.prems(1) have notin: "a \<notin> set xs" by simp
    have up: "(th(a := d))(a := v) = th(a := v)" for d v by simp
    from Cons.prems(3) obtain d' where d': "f d = Inr d'"
      and m: "map_attrs f xs (th(a := d')) = Inr s"
      unfolding True map_attrs.simps fun_upd_same up
      by (cases "f d") simp_all
    from m obtain s0 where
      s0: "map_attrs f xs th = Inr s0" and s: "s = s0(a := d')"
      unfolding map_attrs_notin[OF notin]
      by (cases "map_attrs f xs th") auto
    have "s(a := c') = s0(a := c')" unfolding s by simp
    then show ?thesis
      unfolding True map_attrs.simps fun_upd_same up assms(3) sum.case
        map_attrs_notin[OF notin] s0
      by (simp add: fun_eq_iff)
  next
    case False
    with Cons.prems(1,2) have dx: "distinct xs" and i: "a \<in> set xs" by auto
    have fx: "f ((th(a := v)) x) = f (th x)" for v using False by simp
    have tw: "(th(a := v))(x := w) = (th(x := w))(a := v)" for v w
      using False by (rule fun_upd_twist[symmetric, THEN sym, OF not_sym])
    from Cons.prems(3) obtain w where w: "f (th x) = Inr w"
      and m: "map_attrs f xs ((th(x := w))(a := d)) = Inr s"
      unfolding map_attrs.simps fx tw
      by (cases "f (th x)") (simp_all add: tw)
    show ?thesis
      unfolding map_attrs.simps fx w sum.case tw
      by (rule Cons.IH[OF dx i m])
  qed
qed

lemma validate_types_focus:
  "validate_types g (th(Focus_background_color := v)) = validate_types g th"
  by (simp add: validate_types_def)

lemma validate_sizes_focus:
  "validate_sizes (th(Focus_background_color := v)) = validate_sizes th"
  by (simp add: validate_sizes_def)

lemma validate_vectors_focus:
  "validate_vectors (th(Focus_background_color := v)) =
     (case validate_vectors th of Inl e \<Rightarrow> Inl e
      | Inr t \<Rightarrow> Inr (t(Focus_background_color := v)))"
proof -
  let ?F = Focus_background_color
  let ?L = "[Scrollarea_outer_margin, Title_offset, Widget_background_inflate, Widget_margin]"
  let ?g = "\<lambda>v. vec_to_tuple v 2"
  have tw: "(t(?F := v))(Widget_padding := p) = (t(Widget_padding := p))(?F := v)" for t p
    by (rule fun_upd_twist) simp
  have n1: "?F \<notin> set ?L" by simp
  have n2: "?F \<notin> set [Widget_offset]" by simp
  show ?thesis
  proof (cases "map_attrs ?g ?L th")
    case (Inl e)
    then show ?thesis
      unfolding validate_vectors_def map_attrs_notin[OF n1]
      by (simp add: bindE_def del: map_attrs.simps)
  next
    case (Inr s1)
    show ?thesis
    proof (cases "is_vector (s1 Widget_padding)")
      case False
      with Inr show ?thesis
        unfolding validate_vectors_def map_attrs_notin[OF n1]
        by (simp add: bindE_def map_attrs_notin[OF n2] del: map_attrs.simps)
    next
      case True
      show ?thesis
      proof (cases "vec_to_tuple (s1 Widget_padding) 0")
        case (Inl e)
        with Inr True show ?thesis
          unfolding validate_vectors_def map_attrs_notin[OF n1]
          by (simp add: bindE_def del: map_attrs.simps)
      next
        case p: (Inr p)
        show ?thesis
        proof (cases "len_between p 2 4")
          case False
          with Inr True p show ?thesis
            unfolding validate_vectors_def map_attrs_notin[OF n1]
            by (simp add: bindE_def assert_that_def del: map_attrs.simps)
        next
          case lb: True
          with Inr True p show ?thesis
            unfolding validate_vectors_def map_attrs_notin[OF n1]
            by (simp add: bindE_def assert_that_def tw map_attrs_notin[OF n2]
                del: map_attrs.simps)
        qed
      qed
    qed
  qed
qed

text \<open>
  A validation that succeeds for one focus colour succeeds, up to the final alpha check,
  for any other focus colour that \<^verbatim>\<open>_format_opacity\<close> accepts, with the same result in
  every other attribute.
\<close>

lemma validate_focus_exchange:
  assumes ok: "validate g (th(Focus_background_color := d)) = Inr t0"
    and c: "format_opacity c = Inr c'"
  shows "validate g (th(Focus_background_color := c)) =
     (case py_index c' 3 of
        Inl e \<Rightarrow> Inl e
      | Inr alpha \<Rightarrow> if py_ne alpha 0 then Inr (t0(Focus_background_color := c'))
                     else Inl AssertionError)"
proof -
  let ?F = Focus_background_color
  have dist: "distinct color_attrs" and mem: "?F \<in> set color_attrs"
    by (simp_all add: color_attrs_def)
  from ok obtain s1 where
    t: "validate_types g th = Inr ()"
    and m: "map_attrs format_opacity color_attrs (th(?F := d)) = Inr s1"
    by (auto simp: validate_def bindE_def validate_types_focus split: sum.splits)
  from ok t m obtain s2 where
    v: "validate_vectors s1 = Inr s2"
    by (auto simp: validate_def bindE_def validate_types_focus split: sum.splits)
  from ok t m v obtain sel where
    z: "validate_sizes s2 = Inr ()"
    and sc: "set_color (s2 Widget_selection_effect) (s2 Selection_color) = Inr sel"
    by (auto simp: validate_def bindE_def validate_types_focus split: sum.splits)
  from ok t m v z sc have t0: "t0 = s2(Widget_selection_effect := sel)"
    by (auto simp: validate_def bindE_def validate_types_focus Let_def
        split: sum.splits if_splits)
  from map_attrs_in[OF dist mem c m]
  have m': "map_attrs format_opacity color_attrs (th(?F := c)) = Inr (s1(?F := c'))" .
  have v': "validate_vectors (s1(?F := c')) = Inr (s2(?F := c'))"
    by (simp add: validate_vectors_focus v)
  have tw: "(s2(?F := c'))(Widget_selection_effect := sel) =
            (s2(Widget_selection_effect := sel))(?F := c')"
    by (rule fun_upd_twist) simp
  have s1: "bindE (Inr x) f = f x" for x :: "'a" and f :: "'a \<Rightarrow> error + 'b"
    by (simp add: bindE_def)
  have fin: "bindE (py_index c' 3) (\<lambda>alpha. bindE (assert_that (py_ne alpha 0))
                (\<lambda>u. Inr (t0(?F := c')))) =
     (case py_index c' 3 of
        Inl e \<Rightarrow> Inl e
      | Inr alpha \<Rightarrow> if py_ne alpha 0 then Inr (t0(?F := c')) else Inl AssertionError)"
    by (simp add: bindE_def assert_that_def split: sum.splits)
  have "validate g (th(?F := c)) =
      bindE (py_index c' 3) (\<lambda>alpha. bindE (assert_that (py_ne alpha 0))
                (\<lambda>u. Inr (t0(?F := c'))))"
    unfolding validate_def validate_types_focus t s1 m' v' validate_sizes_focus z
      fun_upd_other[of Widget_selection_effect ?F] fun_upd_other[of Selection_color ?F]
    by (simp add: sc s1 Let_def tw t0)
  with fin show ?thesis by simp
qed

lemma is_color_cases:
  assumes "is_color c"
  obtains r g b where "c = PTuple [r, g, b] \<or> c = PList [r, g, b]"
  | r g b a where "c = PTuple [r, g, b, a] \<or> c = PList [r, g, b, a]" "channel_ok a"
proof -
  from assms obtain xs where xs: "c = PTuple xs \<or> c = PList xs"
    and len: "length xs = 3 \<or> length xs = 4" and ch: "list_all channel_ok xs"
    by (auto simp: is_color_def split: pyval.splits)
  from len show thesis
  proof
    assume "length xs = 3"
    then obtain r g b where "xs = [r, g, b]"
      by (auto simp: numeral_3_eq_3 length_Suc_conv)
    with xs that(1) show thesis by blast
  next
    assume "length xs = 4"
    then obtain r g b a where x4: "xs = [r, g, b, a]"
      by (auto simp: numeral_Bit0 length_Suc_conv numeral_3_eq_3 eval_nat_numeral)
    with ch have "channel_ok a" by simp
    with xs x4 that(2) show thesis by blast
  qed
qed

lemma format_opacity_alpha:
  assumes "is_color c"
  shows "\<exists>c' alpha x. format_opacity c = Inr c' \<and> py_index c' 3 = Inr alpha \<and>
           num_of alpha = Some x \<and>
           ((\<exists>r g b. c = PTuple [r, g, b] \<or> c = PList [r, g, b]) \<longrightarrow> x = 255)"
proof (rule is_color_cases[OF assms])
  fix r g b
  assume c: "c = PTuple [r, g, b] \<or> c = PList [r, g, b]"
  with assms have "format_opacity c = Inr (PTuple [r, g, b, PInt 255])"
    by (auto simp: format_opacity_tuple3 format_opacity_list3)
  then show ?thesis by (simp add: py_index_def)
next
  fix r g b a
  assume c: "c = PTuple [r, g, b, a] \<or> c = PList [r, g, b, a]" and a: "channel_ok a"
  from c assms have f: "format_opacity c = Inr (PTuple [r, g, b, a])"
    by (auto simp: format_opacity_tuple4 format_opacity_list4)
  from a obtain x where "num_of a = Some x"
    by (auto simp: channel_ok_def split: option.splits)
  with f c show ?thesis by (auto simp: py_index_def)
qed

text \<open>
  Claim C9. Take a theme that is valid apart from its focus colour: with some focus colour
  \<open>d\<close> in that attribute, \<^verbatim>\<open>validate\<close> returns. Then for every valid colour \<open>c\<close> as
  focus colour, \<^verbatim>\<open>validate\<close> fails (with the final assertion) exactly when the alpha
  channel of the normalised \<open>c\<close> is 0, and otherwise returns the same theme with the
  normalised \<open>c\<close> as focus colour. A colour of three channels gets alpha 255 and so never
  fails.
\<close>

theorem validate_focus_alpha:
  assumes "validate get_scrollbars_from_position (th(Focus_background_color := d)) = Inr t0"
    and "is_color c"
  shows "\<exists>c' alpha x. format_opacity c = Inr c' \<and> py_index c' 3 = Inr alpha \<and>
           num_of alpha = Some x \<and>
           validate get_scrollbars_from_position (th(Focus_background_color := c)) =
             (if x = 0 then Inl AssertionError
              else Inr (t0(Focus_background_color := c'))) \<and>
           ((\<exists>r g b. c = PTuple [r, g, b] \<or> c = PList [r, g, b]) \<longrightarrow> x = 255)"
proof -
  from format_opacity_alpha[OF assms(2)] obtain c' alpha x where
    f: "format_opacity c = Inr c'" and i: "py_index c' 3 = Inr alpha"
    and n: "num_of alpha = Some x"
    and t: "(\<exists>r g b. c = PTuple [r, g, b] \<or> c = PList [r, g, b]) \<longrightarrow> x = 255"
    by blast
  from validate_focus_exchange[OF assms(1) f] i n
  have "validate get_scrollbars_from_position (th(Focus_background_color := c)) =
             (if x = 0 then Inl AssertionError
              else Inr (t0(Focus_background_color := c')))"
    by (simp add: py_ne_def)
  with f i n t show ?thesis by blast
qed

lemma default_theme_validates:
  "\<not> isl (Theme_init []) \<and> \<not> isl (validate example_scrollbars (projr (Theme_init [])))"
  by (simp add: Theme_init_def theme_schema_def Theme_get_def unset_theme_def color3_def
      color4_def pair2_def validate_eval example_scrollbars_def)

theorem validate_focus_alpha_witness:
  "validate example_scrollbars
      ((projr (Theme_init []))(Focus_background_color := color4 0 0 0 0)) = Inl AssertionError \<and>
   \<not> isl (validate example_scrollbars
      ((projr (Theme_init []))(Focus_background_color := color4 0 0 0 1))) \<and>
   \<not> isl (validate example_scrollbars
      ((projr (Theme_init []))(Focus_background_color := color3 1 2 3)))"
proof -
  let ?th = "projr (Theme_init [])"
  have same: "?th(Focus_background_color := ?th Focus_background_color) = ?th" by simp
  from default_theme_validates obtain t0 where
    "validate example_scrollbars ?th = Inr t0"
    by (cases "validate example_scrollbars ?th") auto
  with same have ok:
    "validate example_scrollbars (?th(Focus_background_color := ?th Focus_background_color)) =
       Inr t0"
    by simp
  have c: "is_color (color4 0 0 0 0)" "is_color (color4 0 0 0 1)" "is_color (color3 1 2 3)"
    by (simp_all add: is_color_def channel_ok_def color3_def color4_def)
  have f: "format_opacity (color4 0 0 0 0) = Inr (color4 0 0 0 0)"
          "format_opacity (color4 0 0 0 1) = Inr (color4 0 0 0 1)"
    by (simp_all add: color4_def format_opacity_tuple4 is_color_def channel_ok_def)
  from validate_focus_alpha[OF ok c(1)] f(1)
  have 1: "validate example_scrollbars (?th(Focus_background_color := color4 0 0 0 0)) =
      Inl AssertionError"
    by (auto simp: py_index_def color4_def)
  from validate_focus_alpha[OF ok c(2)] f(2)
  have 2: "\<not> isl (validate example_scrollbars (?th(Focus_background_color := color4 0 0 0 1)))"
    by (auto simp: py_index_def color4_def)
  from validate_focus_alpha[OF ok c(3)]
  have 3: "\<not> isl (validate example_scrollbars (?th(Focus_background_color := color3 1 2 3)))"
    by (auto simp: color3_def)
  from 1 2 3 show ?thesis by blast
qed

end
